theory Spec2Isabelle
  imports Main "HOL-Library.Word"
begin

unbundle bit_operations_syntax

section \<open>Errors, panics and the deferred handlers of err2\<close>

text \<open>
  A Go \<^verbatim>\<open>error\<close> value is its message. A function either returns its results or
  panics; the value it panics with is an error (what \<^verbatim>\<open>err2.Check\<close> and
  \<^verbatim>\<open>panic(err)\<close> raise, and what the Go runtime raises on a nil dereference) or any
  other value (\<^verbatim>\<open>panic("not a CA")\<close> raises a string).
\<close>

datatype error = Err string

datatype panic = PanicErr error | PanicVal string

datatype 'a outcome = Return 'a | Panic panic

definition nilDereference :: error where
  "nilDereference = Err ''runtime error: invalid memory address or nil pointer dereference''"

text \<open>
  \<^verbatim>\<open>defer err2.Return(&err)\<close>: a panic that carries an error is recovered and becomes the
  returned error, next to the named results as they stand (\<open>cur\<close>); any other panic
  goes on.
\<close>

definition err2_Return :: "'r \<Rightarrow> ('r \<times> error option) outcome \<Rightarrow> ('r \<times> error option) outcome" where
  "err2_Return cur out =
     (case out of
        Panic (PanicErr e) \<Rightarrow> Return (cur, Some e)
      | Panic (PanicVal v) \<Rightarrow> Panic (PanicVal v)
      | Return r \<Rightarrow> Return r)"

text \<open>
  \<^verbatim>\<open>defer err2.Handle(&err, f)\<close>: as \<^verbatim>\<open>err2.Return\<close>, and the handler \<open>f\<close> runs on
  the named results whenever the error is not nil, whether it was returned or
  recovered from a panic.
\<close>

definition err2_Handle ::
  "('r \<times> error option \<Rightarrow> 'r \<times> error option) \<Rightarrow> 'r \<Rightarrow> ('r \<times> error option) outcome
     \<Rightarrow> ('r \<times> error option) outcome" where
  "err2_Handle f cur out =
     (case out of
        Panic (PanicErr e) \<Rightarrow> Return (f (cur, Some e))
      | Panic (PanicVal v) \<Rightarrow> Panic (PanicVal v)
      | Return (r, Some e) \<Rightarrow> Return (f (r, Some e))
      | Return (r, None) \<Rightarrow> Return (r, None))"

text \<open>A call ends in an error when it returns one or panics with one.\<close>

definition is_error :: "('r \<times> error option) outcome \<Rightarrow> bool" where
  "is_error out =
     (case out of
        Panic (PanicErr e) \<Rightarrow> True
      | Panic (PanicVal v) \<Rightarrow> False
      | Return (r, Some e) \<Rightarrow> True
      | Return (r, None) \<Rightarrow> False)"

section \<open>Payload types and messages\<close>

text \<open>
  The payload type strings are the constants of package \<^verbatim>\<open>pltype\<close>, which is not among
  the sources: one constructor for each constant the sources name, and \<open>OtherPl\<close> for
  every other string. Go rejects a \<^verbatim>\<open>switch\<close> with two equal constant cases, so the
  constants of one \<^verbatim>\<open>switch\<close> differ.
\<close>

datatype PlType =
    CANotifyStatus
  | CANotifyUserAction
  | SAPing
  | SAIssueCredentialAcceptPropose
  | SAPresentProofAcceptPropose
  | SAPresentProofAcceptValues
  | ConnectionError
  | Terminate
  | CAPairwiseCreate
  | CACredOffer
  | CACredRequest
  | CAProofRequest
  | CAProofPropose
  | CATrustPing
  | CABasicMessage
  | CAContinueIssueCredentialProtocol
  | CAContinuePresentProofProtocol
  | OtherPl string

text \<open>\<^verbatim>\<open>anoncreds.ProofRequest\<close>, with its two maps as association lists.\<close>

record ProofRequest =
  prName :: string
  prVersion :: string
  prNonce :: string
  RequestedAttributes :: "(string \<times> string) list"
  RequestedPredicates :: "(string \<times> string) list"

datatype SubMsg = SubEmpty | SubProofRequest ProofRequest | SubJSON string

text \<open>
  \<^verbatim>\<open>didcomm.Msg\<close>: the fields the sources read and set through \<^verbatim>\<open>Ready/SetReady\<close>,
  \<^verbatim>\<open>Info/SetInfo\<close>, \<^verbatim>\<open>SubMsg/SetSubMsg\<close>, \<^verbatim>\<open>Error\<close> and \<^verbatim>\<open>Thread().ID\<close>. An
  interface value that may be nil is a \<open>Msg option\<close>.
\<close>

record Msg =
  ready :: bool
  info :: string
  subMsg :: SubMsg
  errorText :: string
  threadID :: string

section \<open>The permissive service agent\<close>

definition PermissiveSA :: string where
  "PermissiveSA = ''permissive_sa''"

text \<open>
  \<^verbatim>\<open>permissiveHandler(WDID, plType, im)\<close>. \<open>nonce\<close> is the value \<^verbatim>\<open>utils.NewNonceStr()\<close>
  gives. The handler reads and writes nothing but its arguments: it has no call on
  the PSM store.
\<close>

definition permissiveHandler :: "string \<Rightarrow> string \<Rightarrow> PlType \<Rightarrow> Msg \<Rightarrow> Msg option \<times> error option" where
  "permissiveHandler nonce wdid plTy im =
     (case plTy of
        CANotifyStatus \<Rightarrow> (None, None)
      | SAPing \<Rightarrow> (Some (im\<lparr>ready := True, info := ''SA ping OK''\<rparr>), None)
      | SAIssueCredentialAcceptPropose \<Rightarrow> (Some (im\<lparr>ready := True\<rparr>), None)
      | SAPresentProofAcceptPropose \<Rightarrow>
          (let proofRequest = \<lparr>prName = ''FirstProofReq'', prVersion = ''0.1'', prNonce = nonce,
                 RequestedAttributes = [(''attr1_referent'', ''email'')],
                 RequestedPredicates = []\<rparr>
           in (Some (im\<lparr>subMsg := SubProofRequest proofRequest, ready := True\<rparr>), None))
      | SAPresentProofAcceptValues \<Rightarrow> (Some (im\<lparr>ready := True\<rparr>), None)
      | _ \<Rightarrow> (None, None))"

text \<open>The payload types that ask the service agent a question.\<close>

definition isQuestion :: "PlType \<Rightarrow> bool" where
  "isQuestion plTy =
     (plTy = SAPing \<or> plTy = SAIssueCredentialAcceptPropose \<or>
      plTy = SAPresentProofAcceptPropose \<or> plTy = SAPresentProofAcceptValues)"

section \<open>Agents\<close>

record DID =
  Did :: string
  VerKey :: string

text \<open>\<^verbatim>\<open>sec.Pipe\<close> and the two pairwise maps of an agent, \<^verbatim>\<open>type PipeMap map[string]sec.Pipe\<close>.\<close>

record Pipe =
  In :: DID
  Out :: DID

type_synonym PipeMap = "string \<rightharpoonup> Pipe"

record Transport =
  PLPipe :: Pipe
  MsgPipe :: Pipe

record ServiceAddr =
  Endp :: string
  Key :: string

record Payload =
  plType :: PlType
  plMessage :: Msg

text \<open>
  Modelled from the spec: package \<^verbatim>\<open>ssi\<close> (\<^verbatim>\<open>DIDAgent\<close> with its \<^verbatim>\<open>Type\<close>, \<^verbatim>\<open>IsCA\<close> and
  \<^verbatim>\<open>IsWorker\<close>) is not among the sources. The agent type is a bit set over \<^verbatim>\<open>ssi.Edge\<close> and
  \<^verbatim>\<open>ssi.Worker\<close>: \<^verbatim>\<open>NewEA\<close> builds an agent of type \<^verbatim>\<open>Edge\<close>, \<^verbatim>\<open>workerAgent\<close> one of type
  \<^verbatim>\<open>Edge | Worker\<close>, and a cloud agent has neither bit. A worker is an agent with the
  \<^verbatim>\<open>Worker\<close> bit, a CA one without the \<^verbatim>\<open>Edge\<close> bit.
\<close>

datatype AgentFlag = Edge | Worker

text \<open>
  \<^verbatim>\<open>struct Agent\<close>. Agents refer to each other by pointer (\<^verbatim>\<open>worker\<close>, \<^verbatim>\<open>ca\<close>): a pointer is
  an address in a heap of agents, \<open>None\<close> is nil. A Go map that was never made is nil
  (\<open>None\<close>): reading it gives nothing, writing to it panics. \<open>Tr\<close> is the transport,
  read through \<^verbatim>\<open>PayloadPipe()\<close>.
\<close>

type_synonym addr = nat

record Agent =
  Type :: "AgentFlag set"
  Root :: DID
  SAImplID :: string
  EAEndp :: "ServiceAddr option"
  Tr :: Transport
  worker :: "addr option"
  ca :: "addr option"
  pws :: "PipeMap option"
  pwNames :: "PipeMap option"

definition IsCA :: "Agent \<Rightarrow> bool" where
  "IsCA a = (Edge \<notin> Type a)"

definition IsWorker :: "Agent \<Rightarrow> bool" where
  "IsWorker a = (Worker \<in> Type a)"

definition PayloadPipe :: "Transport \<Rightarrow> Pipe" where
  "PayloadPipe t = PLPipe t"

text \<open>\<^verbatim>\<open>WDID\<close>: the DID string of the worker EA.\<close>

definition WDID :: "Agent \<Rightarrow> string" where
  "WDID a = Did (Out (PayloadPipe (Tr a)))"

text \<open>
  What the agent code calls outside this package, as parameters: the wallet
  (\<^verbatim>\<open>did.Meta\<close>, \<^verbatim>\<open>indypw.List\<close>, \<^verbatim>\<open>LoadDID\<close>, the wallet's creation), the enclave, the JSON
  decoder, the transport's endpoint call, and the registry of service agent
  implementations \<^verbatim>\<open>sa.Get\<close> with the constant \<^verbatim>\<open>sa.GRPCSA\<close>.
\<close>

type_synonym SAHandler = "string \<Rightarrow> PlType \<Rightarrow> Msg \<Rightarrow> (Msg option \<times> error option) outcome"

record PairwiseData =
  MyDid :: string
  TheirDid :: string
  Metadata :: string

record Env =
  didMeta :: "string \<Rightarrow> error option \<times> string"
  addrFromJSON :: "string \<Rightarrow> ServiceAddr"
  DIDComCallEndp :: "string \<Rightarrow> PlType \<Rightarrow> Msg \<Rightarrow> error + Payload"
  saGet :: "string \<Rightarrow> SAHandler"
  GRPCSA :: string
  WalletKeyByDID :: "string \<Rightarrow> error + string"
  walletInitializedBefore :: bool
  LoadDID :: "string \<Rightarrow> DID"
  NewWalletMasterSecret :: "string \<Rightarrow> error + string"
  ProverCreateMasterSecret :: "string \<Rightarrow> error option \<times> string"
  pairwiseList :: "error + PairwiseData list"

subsection \<open>Calling the service agent\<close>

text \<open>\<^verbatim>\<open>type callType int\<close>; the zero value was \<^verbatim>\<open>callTypeNone\<close>.\<close>

type_synonym callType = int

definition callTypeImplID :: callType where
  "callTypeImplID = 1"

definition callTypeEndp :: callType where
  "callTypeEndp = 2"

definition checkSAImpl :: "Env \<Rightarrow> Agent \<Rightarrow> callType \<times> Agent" where
  "checkSAImpl env a =
     (if SAImplID a \<noteq> '''' then (callTypeImplID, a)
      else (callTypeImplID, a\<lparr>SAImplID := GRPCSA env\<rparr>))"

definition callableEA :: "Env \<Rightarrow> Agent \<Rightarrow> callType outcome \<times> Agent" where
  "callableEA env a =
     (if \<not> IsCA a then (Panic (PanicVal ''not a CA''), a)
      else
        let a1 =
          (if SAImplID a = '''' \<and> EAEndp a = None then
             (case didMeta env (Did (Out (PayloadPipe (Tr a)))) of
                (None, str1) \<Rightarrow>
                  if str1 \<noteq> ''pairwise'' \<and> str1 \<noteq> '''' then a\<lparr>EAEndp := Some (addrFromJSON env str1)\<rparr>
                  else a
              | (Some e, str1) \<Rightarrow> a)
           else a)
        in case checkSAImpl env a1 of (ct, a2) \<Rightarrow> (Return ct, a2))"

text \<open>
  \<^verbatim>\<open>callEA\<close>, under \<^verbatim>\<open>defer err2.Return(&err)\<close>. Reading \<^verbatim>\<open>a.EAEndp.Endp\<close> of a nil endpoint
  is a runtime error.
\<close>

definition callEA :: "Env \<Rightarrow> Agent \<Rightarrow> PlType \<Rightarrow> Msg \<Rightarrow> (Msg option \<times> error option) outcome" where
  "callEA env a plTy msg =
     err2_Return None
       (case EAEndp a of
          None \<Rightarrow> Panic (PanicErr nilDereference)
        | Some ad \<Rightarrow>
            (case DIDComCallEndp env (Endp ad) plTy msg of
               Inl e \<Rightarrow> Panic (PanicErr e)
             | Inr ipl \<Rightarrow>
                 if plType ipl = ConnectionError
                 then Return (None, Some (Err (''call ea api: '' @ errorText (plMessage ipl))))
                 else Return (Some (plMessage ipl), None)))"

text \<open>The \<^verbatim>\<open>switch\<close> of \<^verbatim>\<open>CallEA\<close> on the call type, before the deferred handler runs.\<close>

definition CallEA_switch ::
  "Env \<Rightarrow> callType \<Rightarrow> Agent \<Rightarrow> PlType \<Rightarrow> Msg \<Rightarrow> (Msg option \<times> error option) outcome" where
  "CallEA_switch env ct a plTy im =
     (if ct = callTypeEndp then callEA env a plTy im
      else if ct = callTypeImplID then saGet env (SAImplID a) (WDID a) plTy im
      else Return (Some (im\<lparr>ready := False, info := ''no SA endpoint or implementation ID set''\<rparr>), None))"

text \<open>
  The handler \<^verbatim>\<open>CallEA\<close> defers with \<^verbatim>\<open>err2.Handle\<close>: \<^verbatim>\<open>om = im\<close>, \<^verbatim>\<open>om.SetReady(false)\<close>,
  \<^verbatim>\<open>err = nil\<close>.
\<close>

definition CallEA_rollback :: "Msg \<Rightarrow> Msg option \<times> error option \<Rightarrow> Msg option \<times> error option" where
  "CallEA_rollback im r = (Some (im\<lparr>ready := False\<rparr>), None)"

definition CallEA :: "Env \<Rightarrow> Agent \<Rightarrow> PlType \<Rightarrow> Msg \<Rightarrow> (Msg option \<times> error option) outcome \<times> Agent" where
  "CallEA env a plTy im =
     (case callableEA env a of
        (Panic p, a') \<Rightarrow> (err2_Handle (CallEA_rollback im) None (Panic p), a')
      | (Return ct, a') \<Rightarrow>
          (err2_Handle (CallEA_rollback im) None (CallEA_switch env ct a' plTy im), a'))"

subsection \<open>The pairwise maps\<close>

definition nilMapAssignment :: error where
  "nilMapAssignment = Err ''assignment to entry in nil map''"

text \<open>
  \<^verbatim>\<open>AddToPWMap(me, you, name)\<close>: the two assignments in the order of the source; the
  first one to a nil map panics and leaves what was written before it.
\<close>

definition AddToPWMap :: "Agent \<Rightarrow> DID \<Rightarrow> DID \<Rightarrow> string \<Rightarrow> Pipe outcome \<times> Agent" where
  "AddToPWMap a me you name =
     (let pipe = \<lparr>In = me, Out = you\<rparr> in
      case pws a of
        None \<Rightarrow> (Panic (PanicErr nilMapAssignment), a)
      | Some m \<Rightarrow>
          (let a1 = a\<lparr>pws := Some (m(Did me \<mapsto> pipe))\<rparr> in
           case pwNames a1 of
             None \<Rightarrow> (Panic (PanicErr nilMapAssignment), a1)
           | Some n \<Rightarrow> (Return pipe, a1\<lparr>pwNames := Some (n(name \<mapsto> pipe))\<rparr>)))"

definition AddPipeToPWMap :: "Agent \<Rightarrow> Pipe \<Rightarrow> string \<Rightarrow> unit outcome \<times> Agent" where
  "AddPipeToPWMap a p name =
     (case pws a of
        None \<Rightarrow> (Panic (PanicErr nilMapAssignment), a)
      | Some m \<Rightarrow>
          (let a1 = a\<lparr>pws := Some (m(Did (In p) \<mapsto> p))\<rparr> in
           case pwNames a1 of
             None \<Rightarrow> (Panic (PanicErr nilMapAssignment), a1)
           | Some n \<Rightarrow> (Return (), a1\<lparr>pwNames := Some (n(name \<mapsto> p))\<rparr>)))"

text \<open>\<^verbatim>\<open>SecPipe(meDID)\<close>: a read of a nil map, or of a missing key, gives the zero pipe.\<close>

definition zeroDID :: DID where
  "zeroDID = \<lparr>Did = '''', VerKey = ''''\<rparr>"

definition zeroPipe :: Pipe where
  "zeroPipe = \<lparr>In = zeroDID, Out = zeroDID\<rparr>"

definition SecPipe :: "Agent \<Rightarrow> string \<Rightarrow> Pipe" where
  "SecPipe a meDID =
     (case pws a of
        None \<Rightarrow> zeroPipe
      | Some m \<Rightarrow> (case m meDID of None \<Rightarrow> zeroPipe | Some p \<Rightarrow> p))"

text \<open>
  \<^verbatim>\<open>loadPWMap\<close>: the loop over the pairwise records of the wallet; a failing
  \<^verbatim>\<open>indypw.List\<close> is logged and the maps stay as they are.
\<close>

fun loadPWs :: "Env \<Rightarrow> PairwiseData list \<Rightarrow> Agent \<Rightarrow> unit outcome \<times> Agent" where
  "loadPWs env [] a = (Return (), a)"
| "loadPWs env (d # ds) a =
     (let p = \<lparr>In = LoadDID env (MyDid d), Out = LoadDID env (TheirDid d)\<rparr> in
      case pws a of
        None \<Rightarrow> (Panic (PanicErr nilMapAssignment), a)
      | Some m \<Rightarrow>
          (let a1 = a\<lparr>pws := Some (m(MyDid d \<mapsto> p))\<rparr> in
           case pwNames a1 of
             None \<Rightarrow> (Panic (PanicErr nilMapAssignment), a1)
           | Some n \<Rightarrow> loadPWs env ds (a1\<lparr>pwNames := Some (n(Metadata d \<mapsto> p))\<rparr>)))"

definition loadPWMap :: "Env \<Rightarrow> Agent \<Rightarrow> unit outcome \<times> Agent" where
  "loadPWMap env a =
     (case pairwiseList env of
        Inl e \<Rightarrow> (Return (), a)
      | Inr pwd \<Rightarrow> loadPWs env pwd a)"

subsection \<open>The worker EA of a CA\<close>

text \<open>
  The heap of agents: an address is an index, a new agent is allocated at the end.
  A nil or dangling pointer has no agent.
\<close>

type_synonym heap = "Agent list"

definition deref :: "heap \<Rightarrow> addr \<Rightarrow> Agent option" where
  "deref h p = (if p < length h then Some (h ! p) else None)"

text \<open>
  \<^verbatim>\<open>workerAgent(rcvrDID, suffix)\<close>. The new agent is stored in \<^verbatim>\<open>a.worker\<close> before the
  master secret is made, so a panic after that point leaves the worker in place.
  The wallet handles and the registration in \<^verbatim>\<open>comm.ActiveRcvrs\<close> are outside the
  heap of agents.
\<close>

definition workerAgent :: "Env \<Rightarrow> heap \<Rightarrow> addr \<Rightarrow> string \<Rightarrow> string \<Rightarrow> addr outcome \<times> heap" where
  "workerAgent env h a rcvrDID suffix =
     (case deref h a of
        None \<Rightarrow> (Panic (PanicErr nilDereference), h)
      | Some ag \<Rightarrow>
          (case worker ag of
             Some w \<Rightarrow> (Return w, h)
           | None \<Rightarrow>
               if rcvrDID \<noteq> Did (Out (PayloadPipe (Tr ag)))
               then (Panic (PanicVal ''Agent URL doesn't match with Transport''), h)
               else
                 (case WalletKeyByDID env (Did (Root ag)) of
                    Inl e \<Rightarrow> (Panic (PanicErr e), h)
                  | Inr key \<Rightarrow>
                      (let w = length h;
                           cloudPipe = \<lparr>In = LoadDID env rcvrDID, Out = In (PayloadPipe (Tr ag))\<rparr>;
                           wa = \<lparr>Type = {Edge, Worker}, Root = Root ag, SAImplID = '''',
                                 EAEndp = None,
                                 Tr = \<lparr>PLPipe = cloudPipe, MsgPipe = cloudPipe\<rparr>,
                                 worker = None, ca = Some a,
                                 pws = Some Map.empty, pwNames = Some Map.empty\<rparr>;
                           h1 = (h[a := ag\<lparr>worker := Some w\<rparr>]) @ [wa];
                           secret =
                             (if \<not> walletInitializedBefore env then
                                (case NewWalletMasterSecret env (Did (Root ag)) of
                                   Inl e \<Rightarrow> Some (PanicErr e)
                                 | Inr masterSec \<Rightarrow>
                                     (case ProverCreateMasterSecret env masterSec of
                                        (Some e, str1) \<Rightarrow> Some (PanicErr e)
                                      | (None, str1) \<Rightarrow>
                                          if masterSec \<noteq> str1 then Some (PanicVal ''nil'') else None))
                              else None)
                       in case secret of
                            Some p \<Rightarrow> (Panic p, h1)
                          | None \<Rightarrow>
                              (case loadPWMap env wa of
                                 (Panic p, wa') \<Rightarrow> (Panic p, h1[w := wa'])
                               | (Return u, wa') \<Rightarrow> (Return w, h1[w := wa']))))))"

text \<open>\<^verbatim>\<open>WEA()\<close>: the worker EA of the CA at address \<open>a\<close>.\<close>

definition WEA :: "Env \<Rightarrow> heap \<Rightarrow> addr \<Rightarrow> addr outcome \<times> heap" where
  "WEA env h a =
     (case deref h a of
        None \<Rightarrow> (Panic (PanicErr nilDereference), h)
      | Some ag \<Rightarrow>
          (case worker ag of
             Some w \<Rightarrow> (Return w, h)
           | None \<Rightarrow> workerAgent env h a (Did (Out (PayloadPipe (Tr ag)))) ''_worker''))"

definition MyCA :: "heap \<Rightarrow> addr \<Rightarrow> addr outcome" where
  "MyCA h a =
     (case deref h a of
        None \<Rightarrow> Panic (PanicErr nilDereference)
      | Some ag \<Rightarrow>
          if \<not> IsWorker ag then Panic (PanicVal ''not a worker agent! don't have CA'')
          else (case ca ag of
                  None \<Rightarrow> Panic (PanicVal ''CA is nil in Worker EA'')
                | Some c \<Rightarrow> Return c))"

section \<open>Protocol state machines\<close>

text \<open>
  Modelled from the spec: package \<^verbatim>\<open>psm\<close> (\<^verbatim>\<open>SubState\<close> with its constants and \<^verbatim>\<open>Pure\<close>,
  \<^verbatim>\<open>PSM\<close> with \<^verbatim>\<open>LastState\<close> and \<^verbatim>\<open>PendingUserAction\<close>, \<^verbatim>\<open>StateKey\<close>) is not among the
  sources. The substate is a bitfield over Sending, Waiting, Ready, Failure, ACK,
  NACK and Archiving, one bit each in the order of that list, with the composites
  \<open>ReadyACK = Ready | ACK\<close> and \<open>ReadyNACK = Ready | NACK\<close>. \<open>Pure\<close> projects the ACK and
  NACK bits away; the archiving bit may accompany the projection, which is why the
  sources compare it with \<^verbatim>\<open>psm.Ready | psm.Archiving\<close> too.
\<close>

type_synonym SubState = "64 word"

definition Sending :: SubState where
  "Sending = 1"

definition Waiting :: SubState where
  "Waiting = 2"

definition Ready :: SubState where
  "Ready = 4"

definition Failure :: SubState where
  "Failure = 8"

definition ACK :: SubState where
  "ACK = 16"

definition NACK :: SubState where
  "NACK = 32"

definition Archiving :: SubState where
  "Archiving = 64"

definition ReadyACK :: SubState where
  "ReadyACK = Ready OR ACK"

definition ReadyNACK :: SubState where
  "ReadyNACK = Ready OR NACK"

definition Pure :: "SubState \<Rightarrow> SubState" where
  "Pure ss = ss AND NOT (ACK OR NACK)"

text \<open>The protobuf enumerations of the RPC interface.\<close>

datatype ProtocolState_State =
    ProtocolState_RUNNING
  | ProtocolState_OK
  | ProtocolState_ERR
  | ProtocolState_NACK
  | ProtocolState_ACK
  | ProtocolState_WAIT_ACTION

datatype Protocol_Role = Protocol_UNKNOWN | Protocol_INITIATOR | Protocol_ADDRESSEE | Protocol_RESUME

datatype Protocol_Type =
    Protocol_NONE
  | Protocol_CONNECT
  | Protocol_ISSUE
  | Protocol_PROOF
  | Protocol_TRUST_PING
  | Protocol_BASIC_MESSAGE

record StateKey =
  keyDID :: string
  keyNonce :: string

text \<open>\<^verbatim>\<open>comm.TaskHeader\<close>, as far as the handlers fill it.\<close>

record TaskHeader =
  TaskID :: string
  TypeID :: PlType

text \<open>
  Modelled from the spec: a PSM record holds, in order, every state the instance has
  occupied; the last entry is the current state. An entry carries the substate, a
  timestamp, the task, the message type a Waiting entry waits for, and the pending
  user action flag. \<^verbatim>\<open>LastState\<close> is nil for a record with no entry, and
  \<^verbatim>\<open>PendingUserAction\<close> reads the flag of the last entry.
\<close>

record PSMState =
  Sub :: SubState
  Timestamp :: nat
  T :: "TaskHeader option"
  waitingFor :: "PlType option"
  pendingFlag :: bool

record PSM =
  Key :: StateKey
  Role :: Protocol_Role
  ConnID :: string
  States :: "PSMState list"

definition LastState :: "PSM \<Rightarrow> PSMState option" where
  "LastState m = (case States m of [] \<Rightarrow> None | s # ss \<Rightarrow> Some (last (s # ss)))"

definition PendingUserAction :: "PSM \<Rightarrow> bool" where
  "PendingUserAction m = (case LastState m of None \<Rightarrow> False | Some s \<Rightarrow> pendingFlag s)"

subsection \<open>The state reported by Status\<close>

text \<open>\<^verbatim>\<open>calcProtocolState(m)\<close>; a nil \<^verbatim>\<open>m\<close> is \<open>None\<close>.\<close>

definition calcProtocolState :: "PSM option \<Rightarrow> ProtocolState_State" where
  "calcProtocolState mo =
     (case mo of
        None \<Rightarrow> ProtocolState_RUNNING
      | Some m \<Rightarrow>
          if PendingUserAction m then ProtocolState_WAIT_ACTION
          else
            (case LastState m of
               None \<Rightarrow> ProtocolState_RUNNING
             | Some lst \<Rightarrow>
                 if Pure (Sub lst) = Ready \<or> Pure (Sub lst) = Ready OR Archiving then
                   (if Sub lst AND ACK \<noteq> 0 then ProtocolState_OK else ProtocolState_NACK)
                 else if Pure (Sub lst) = Failure \<or> Pure (Sub lst) = Failure OR Archiving then
                   ProtocolState_ERR
                 else ProtocolState_RUNNING))"

text \<open>
  The state as the sentence of the specification computes it, for the comparison
  with \<open>calcProtocolState\<close>: OK and NACK only where the projection is Ready, ERR only
  where it is Failure.
\<close>

definition calcProtocolState_stated :: "PSM option \<Rightarrow> ProtocolState_State" where
  "calcProtocolState_stated mo =
     (case mo of
        None \<Rightarrow> ProtocolState_RUNNING
      | Some m \<Rightarrow>
          if PendingUserAction m then ProtocolState_WAIT_ACTION
          else
            (case LastState m of
               None \<Rightarrow> ProtocolState_RUNNING
             | Some lst \<Rightarrow>
                 if Pure (Sub lst) = Ready then
                   (if Sub lst AND ACK \<noteq> 0 then ProtocolState_OK else ProtocolState_NACK)
                 else if Pure (Sub lst) = Failure then ProtocolState_ERR
                 else ProtocolState_RUNNING))"

record ProtocolID =
  pidTypeID :: Protocol_Type
  pidRole :: Protocol_Role
  pidID :: string

record ProtocolState =
  ProtocolID :: "ProtocolID option"
  State :: ProtocolState_State
  Info :: string

record ProtocolStatus =
  StatusState :: ProtocolState
  StatusDetail :: string

text \<open>
  \<^verbatim>\<open>tryProtocolStatus(id, key)\<close> and \<^verbatim>\<open>Status\<close>. \<^verbatim>\<open>psm.GetPSM\<close>, \<^verbatim>\<open>prot.FillStatus\<close> and the
  agent lookup \<^verbatim>\<open>ca(ctx)\<close> with its \<^verbatim>\<open>WorkerEA\<close> are parameters: \<open>getPSM\<close> gives an
  error, no record (nil) or the record; \<open>caWDID\<close> gives an error or the DID of the
  caller's worker EA. A failing \<^verbatim>\<open>GetPSM\<close> is raised by \<^verbatim>\<open>e2.PSM.Try\<close> and returned by
  the \<^verbatim>\<open>err2.Return\<close> that \<^verbatim>\<open>Status\<close> defers. The pairwise name of no record is
  the empty string: the source tests \<^verbatim>\<open>m != nil\<close> only after it has asked for the name.
  \<open>fillStatus k ps\<close> is \<^verbatim>\<open>prot.FillStatus(protocolName[id.TypeID], key, ps)\<close>.
\<close>

definition tryProtocolStatus ::
  "(StateKey \<Rightarrow> error + PSM option) \<Rightarrow> (StateKey \<Rightarrow> ProtocolStatus \<Rightarrow> ProtocolStatus)
     \<Rightarrow> ProtocolID \<Rightarrow> StateKey \<Rightarrow> (ProtocolStatus \<times> string) outcome" where
  "tryProtocolStatus getPSM fillStatus pid k =
     (case getPSM k of
        Inl e \<Rightarrow> Panic (PanicErr e)
      | Inr mo \<Rightarrow>
          (let st = \<lparr>ProtocolID = Some pid, State = calcProtocolState mo, Info = ''''\<rparr>;
               connID = (case mo of None \<Rightarrow> '''' | Some m \<Rightarrow> ConnID m);
               st' = st\<lparr>ProtocolID :=
                        Some (pid\<lparr>pidRole := (case mo of None \<Rightarrow> Protocol_UNKNOWN | Some m \<Rightarrow> Role m)\<rparr>)\<rparr>
           in Return (fillStatus k \<lparr>StatusState = st', StatusDetail = ''''\<rparr>, connID)))"

definition Status ::
  "(error + string) \<Rightarrow> (StateKey \<Rightarrow> error + PSM option) \<Rightarrow> (StateKey \<Rightarrow> ProtocolStatus \<Rightarrow> ProtocolStatus)
     \<Rightarrow> ProtocolID \<Rightarrow> (ProtocolStatus option \<times> error option) outcome" where
  "Status caWDID getPSM fillStatus pid =
     err2_Return None
       (case caWDID of
          Inl e \<Rightarrow> Panic (PanicErr e)
        | Inr wdid \<Rightarrow>
            (case tryProtocolStatus getPSM fillStatus pid \<lparr>keyDID = wdid, keyNonce = pidID pid\<rparr> of
               Panic p \<Rightarrow> Panic p
             | Return (ps, connID) \<Rightarrow> Return (Some ps, None)))"

subsection \<open>Executing a transition\<close>

text \<open>
  The names under which a protocol registers its handlers (\<^verbatim>\<open>pltype.Handler...\<close>),
  and \<^verbatim>\<open>comm.Packet\<close>: the payload with its thread id, type, protocol message and inner
  message, and the worker DID of the receiver.
\<close>

datatype HandlerName =
    HandlerIssueCredentialPropose
  | HandlerIssueCredentialOffer
  | HandlerIssueCredentialRequest
  | HandlerIssueCredentialIssue
  | HandlerIssueCredentialACK
  | HandlerIssueCredentialNACK
  | HandlerPresentProofPropose
  | HandlerPresentProofRequest
  | HandlerPresentProofPresentation
  | HandlerPresentProofACK
  | HandlerPresentProofNACK
  | OtherHandler string

record Packet =
  ThreadID :: string
  PayloadType :: PlType
  ProtocolMsg :: HandlerName
  Message :: Msg
  ReceiverWDID :: string

text \<open>
  \<^verbatim>\<open>prot.Transition\<close>. \<open>InOut\<close> gets the connection id, the inbound and the outbound
  message; it gives the ack bit, the outbound message as it left it, and its error.
\<close>

type_synonym InOutFunc = "string \<Rightarrow> Msg \<Rightarrow> Msg \<Rightarrow> (bool \<times> Msg) \<times> error option"

record Transition =
  Packet :: Packet
  SendNext :: PlType
  WaitingNext :: PlType
  Task :: "TaskHeader option"
  InOut :: InOutFunc

datatype PSMError =
    ProtocolClosed
  | PersistenceFailure
  | HandlerFailure error
  | TransportFailure error

record Envelope =
  envType :: PlType
  envThreadID :: string
  envMessage :: Msg

text \<open>
  The world a transition acts on: the durable store of PSM records, the events
  emitted on the bus, the envelopes handed to the pairwise pipe, and a clock.
\<close>

record World =
  store :: "StateKey \<rightharpoonup> PSM"
  bus :: "(StateKey \<times> SubState) list"
  sent :: "Envelope list"
  clock :: nat

text \<open>
  What the engine asks of its collaborators: whether the protocol permits the
  message as a retransmission to a closed record, whether the store takes a write,
  whether the pipe takes an envelope, whether a transition waits on a user
  decision, and the connection id of a record.
\<close>

record PSMEnv =
  permitsRetransmission :: "PSM \<Rightarrow> Packet \<Rightarrow> bool"
  storeFails :: "World \<Rightarrow> StateKey \<Rightarrow> SubState \<Rightarrow> bool"
  pipeSend :: "Envelope \<Rightarrow> error option"
  waitsForUser :: "Transition \<Rightarrow> bool"

definition terminal :: "SubState \<Rightarrow> bool" where
  "terminal ss =
     (Pure ss = Ready \<or> Pure ss = Ready OR Archiving \<or>
      Pure ss = Failure \<or> Pure ss = Failure OR Archiving)"

definition emptyPSM :: "StateKey \<Rightarrow> PSM" where
  "emptyPSM k = \<lparr>Key = k, Role = Protocol_ADDRESSEE, ConnID = '''', States = []\<rparr>"

definition lookupOrCreate :: "World \<Rightarrow> StateKey \<Rightarrow> PSM" where
  "lookupOrCreate w k = (case store w k of None \<Rightarrow> emptyPSM k | Some m \<Rightarrow> m)"

text \<open>A write appends one entry to the record of the key, or fails and changes nothing.\<close>

definition persist ::
  "PSMEnv \<Rightarrow> StateKey \<Rightarrow> SubState \<Rightarrow> TaskHeader option \<Rightarrow> PlType option \<Rightarrow> bool \<Rightarrow> World
     \<Rightarrow> World option" where
  "persist env k ss task waits pending w =
     (if storeFails env w k ss then None
      else
        let m = lookupOrCreate w k;
            entry = \<lparr>Sub = ss, Timestamp = clock w, T = task, waitingFor = waits,
                     pendingFlag = pending\<rparr>
        in Some (w\<lparr>store := (store w)(k \<mapsto> m\<lparr>States := States m @ [entry]\<rparr>),
                   clock := Suc (clock w)\<rparr>))"

definition emit :: "StateKey \<Rightarrow> SubState \<Rightarrow> World \<Rightarrow> World" where
  "emit k ss w = w\<lparr>bus := bus w @ [(k, ss)]\<rparr>"

definition protocolClosed :: "PSMEnv \<Rightarrow> Transition \<Rightarrow> World \<Rightarrow> bool" where
  "protocolClosed env ts w =
     (let k = \<lparr>keyDID = ReceiverWDID (Packet ts), keyNonce = ThreadID (Packet ts)\<rparr>;
          m = lookupOrCreate w k
      in case LastState m of
           None \<Rightarrow> False
         | Some lst \<Rightarrow> terminal (Sub lst) \<and> \<not> permitsRetransmission env m (Packet ts))"

text \<open>
  Modelled from the spec: \<^verbatim>\<open>prot.ExecPSM\<close> is not among the sources. The steps of the
  specification, in its order: (1) the record of the key (receiver's worker DID,
  thread id of the inbound message) is looked up or created, and the transition
  fails with ProtocolClosed when its last state is terminal and the message is not
  a retransmission the protocol permits; (2) a Sending entry is persisted; (3) the
  outbound message of type \<open>SendNext\<close> is built and \<open>InOut\<close> invoked; (4) an error of
  \<open>InOut\<close> persists Failure, emits Failure and is returned; (5) when \<open>SendNext\<close> is
  Terminate, ReadyACK is persisted if the ack bit is set, else ReadyNACK, the
  matching event is emitted and no envelope is sent; (6) else the envelope is sent
  and a Waiting entry tagged with \<open>WaitingNext\<close> persisted, a failing send persisting
  and emitting Failure; (7) the entry carries the pending user action flag when
  the transition waits on a user decision. A failing write is fatal to the
  transition and is returned with no compensating entry.
\<close>

definition ExecPSM :: "PSMEnv \<Rightarrow> Transition \<Rightarrow> World \<Rightarrow> (PSMError + unit) \<times> World" where
  "ExecPSM env ts w =
     (let pkt = Packet ts;
          k = \<lparr>keyDID = ReceiverWDID pkt, keyNonce = ThreadID pkt\<rparr>
      in
      if protocolClosed env ts w then (Inl ProtocolClosed, w)
      else
        (case persist env k Sending (Task ts) None False w of
           None \<Rightarrow> (Inl PersistenceFailure, w)
         | Some w1 \<Rightarrow>
             (let om0 = \<lparr>ready = False, info = '''', subMsg = SubEmpty, errorText = '''',
                         threadID = ThreadID pkt\<rparr>
              in case InOut ts (ConnID (lookupOrCreate w1 k)) (Message pkt) om0 of
                   ((ack, om), Some e) \<Rightarrow>
                     (case persist env k Failure (Task ts) None False w1 of
                        None \<Rightarrow> (Inl PersistenceFailure, w1)
                      | Some w2 \<Rightarrow> (Inl (HandlerFailure e), emit k Failure w2))
                 | ((ack, om), None) \<Rightarrow>
                     if SendNext ts = Terminate then
                       (let ss = (if ack then ReadyACK else ReadyNACK) in
                        case persist env k ss (Task ts) None False w1 of
                          None \<Rightarrow> (Inl PersistenceFailure, w1)
                        | Some w2 \<Rightarrow> (Inr (), emit k ss w2))
                     else
                       (let envelope = \<lparr>envType = SendNext ts, envThreadID = ThreadID pkt,
                                         envMessage = om\<rparr>
                        in case pipeSend env envelope of
                             Some e \<Rightarrow>
                               (case persist env k Failure (Task ts) None False w1 of
                                  None \<Rightarrow> (Inl PersistenceFailure, w1)
                                | Some w2 \<Rightarrow> (Inl (TransportFailure e), emit k Failure w2))
                           | None \<Rightarrow>
                               (case persist env k Waiting (Task ts) (Some (WaitingNext ts))
                                       (waitsForUser env ts) (w1\<lparr>sent := sent w1 @ [envelope]\<rparr>) of
                                  None \<Rightarrow> (Inl PersistenceFailure, w1\<lparr>sent := sent w1 @ [envelope]\<rparr>)
                                | Some w2 \<Rightarrow> (Inr (), emit k Waiting w2))))))"

subsection \<open>The terminating handlers of the two protocols\<close>

text \<open>
  \<^verbatim>\<open>defer err2.Annotate(prefix, &err)\<close> in the \<^verbatim>\<open>InOut\<close> functions: an error is prefixed,
  no error stays none.
\<close>

definition err2_Annotate :: "string \<Rightarrow> 'r \<times> error option \<Rightarrow> 'r \<times> error option" where
  "err2_Annotate prefix r =
     (case r of
        (x, None) \<Rightarrow> (x, None)
      | (x, Some (Err msg)) \<Rightarrow> (x, Some (Err (prefix @ '': '' @ msg))))"

text \<open>The transition each handler hands to \<^verbatim>\<open>prot.ExecPSM\<close>, and the handler.\<close>

definition credentialNACK :: "Packet \<Rightarrow> Transition" where
  "credentialNACK packet =
     \<lparr>Packet = packet, SendNext = Terminate, WaitingNext = Terminate, Task = None,
      InOut = (\<lambda>connID im om. err2_Annotate ''cred NACK'' ((False, om), None))\<rparr>"

definition handleCredentialNACK :: "PSMEnv \<Rightarrow> Packet \<Rightarrow> World \<Rightarrow> (PSMError + unit) \<times> World" where
  "handleCredentialNACK env packet w = ExecPSM env (credentialNACK packet) w"

definition proofACK :: "Packet \<Rightarrow> TaskHeader option \<Rightarrow> Transition" where
  "proofACK packet proofTask =
     \<lparr>Packet = packet, SendNext = Terminate, WaitingNext = Terminate, Task = proofTask,
      InOut = (\<lambda>connID im om. err2_Annotate ''proof ACK handler'' ((True, om), None))\<rparr>"

definition handleProofACK ::
  "PSMEnv \<Rightarrow> Packet \<Rightarrow> TaskHeader option \<Rightarrow> World \<Rightarrow> (PSMError + unit) \<times> World" where
  "handleProofACK env packet proofTask w = ExecPSM env (proofACK packet proofTask) w"

definition proofNACK :: "Packet \<Rightarrow> TaskHeader option \<Rightarrow> Transition" where
  "proofNACK packet proofTask =
     \<lparr>Packet = packet, SendNext = Terminate, WaitingNext = Terminate, Task = proofTask,
      InOut = (\<lambda>connID im om. err2_Annotate ''proof NACK handler'' ((False, om), None))\<rparr>"

definition handleProofNACK ::
  "PSMEnv \<Rightarrow> Packet \<Rightarrow> TaskHeader option \<Rightarrow> World \<Rightarrow> (PSMError + unit) \<times> World" where
  "handleProofNACK env packet proofTask w = ExecPSM env (proofNACK packet proofTask) w"

text \<open>
  \<^verbatim>\<open>handleProtocol\<close> of the present proof processor: the task is built when the payload
  has a thread id, and the protocol message picks the handler. The handlers of the
  verifier and prover packages are the parameter \<open>others\<close>.
\<close>

definition handleProtocol ::
  "PSMEnv \<Rightarrow> (HandlerName \<Rightarrow> Packet \<Rightarrow> TaskHeader option \<Rightarrow> World \<Rightarrow> (error + PSMError + unit) \<times> World)
     \<Rightarrow> Packet \<Rightarrow> World \<Rightarrow> (error + PSMError + unit) \<times> World" where
  "handleProtocol env others packet w =
     (let proofTask =
            (if ThreadID packet \<noteq> ''''
             then Some \<lparr>TaskID = ThreadID packet, TypeID = PayloadType packet\<rparr> else None)
      in
      if ProtocolMsg packet = HandlerPresentProofPropose
         \<or> ProtocolMsg packet = HandlerPresentProofRequest
         \<or> ProtocolMsg packet = HandlerPresentProofPresentation
      then others (ProtocolMsg packet) packet proofTask w
      else if ProtocolMsg packet = HandlerPresentProofACK
      then (case handleProofACK env packet proofTask w of (r, w') \<Rightarrow> (Inr r, w'))
      else if ProtocolMsg packet = HandlerPresentProofNACK
      then (case handleProofNACK env packet proofTask w of (r, w') \<Rightarrow> (Inr r, w'))
      else (Inl (Err ''no present proof handler''), w))"

text \<open>
  The key of the instance a packet belongs to, and what it is for a transition to
  end the instance of key \<open>k\<close> in the substate \<open>ss\<close>: the transition succeeds, the last
  entry of the record has the substate, the event of the substate is emitted on
  the bus, and no envelope is sent.
\<close>

definition packetKey :: "Packet \<Rightarrow> StateKey" where
  "packetKey packet = \<lparr>keyDID = ReceiverWDID packet, keyNonce = ThreadID packet\<rparr>"

definition endsIn :: "StateKey \<Rightarrow> SubState \<Rightarrow> World \<Rightarrow> (PSMError + unit) \<times> World \<Rightarrow> bool" where
  "endsIn k ss w res =
     (case res of
        (Inl e, w') \<Rightarrow> False
      | (Inr u, w') \<Rightarrow>
          (case store w' k of
             None \<Rightarrow> False
           | Some m \<Rightarrow> (case LastState m of None \<Rightarrow> False | Some lst \<Rightarrow> Sub lst = ss))
          \<and> bus w' = bus w @ [(k, ss)]
          \<and> sent w' = sent w)"

section \<open>The RPC server\<close>

subsection \<open>Tasks from protocol messages\<close>

text \<open>
  \<^verbatim>\<open>typeID\<close>, the look up table of \<^verbatim>\<open>uniqueTypeID\<close>. The source keys it by
  \<^verbatim>\<open>10*role + id\<close>, which names one pair of role and type as long as the numbers of
  the types stay below ten.
\<close>

definition typeID :: "Protocol_Role \<Rightarrow> Protocol_Type \<Rightarrow> PlType option" where
  "typeID role ty =
     (if role = Protocol_INITIATOR \<and> ty = Protocol_CONNECT then Some CAPairwiseCreate
      else if role = Protocol_INITIATOR \<and> ty = Protocol_ISSUE then Some CACredOffer
      else if role = Protocol_ADDRESSEE \<and> ty = Protocol_ISSUE then Some CACredRequest
      else if role = Protocol_INITIATOR \<and> ty = Protocol_PROOF then Some CAProofRequest
      else if role = Protocol_ADDRESSEE \<and> ty = Protocol_PROOF then Some CAProofPropose
      else if role = Protocol_INITIATOR \<and> ty = Protocol_TRUST_PING then Some CATrustPing
      else if role = Protocol_INITIATOR \<and> ty = Protocol_BASIC_MESSAGE then Some CABasicMessage
      else if role = Protocol_RESUME \<and> ty = Protocol_ISSUE then Some CAContinueIssueCredentialProtocol
      else if role = Protocol_RESUME \<and> ty = Protocol_PROOF then Some CAContinuePresentProofProtocol
      else None)"

text \<open>\<^verbatim>\<open>uniqueTypeID\<close> panics with a message, not an error, when the table has no entry.\<close>

definition uniqueTypeID :: "Protocol_Role \<Rightarrow> Protocol_Type \<Rightarrow> PlType outcome" where
  "uniqueTypeID role ty =
     (case typeID role ty of
        None \<Rightarrow> Panic (PanicVal ''cannot find typeid'')
      | Some s \<Rightarrow> Return s)"

text \<open>
  \<^verbatim>\<open>pb.Protocol\<close> with its one-of start message, \<^verbatim>\<open>didexchange.Invitation\<close> and
  \<^verbatim>\<open>comm.Task\<close>. A credential attribute is a pair of name and value, a proof attribute
  a triple of name, credential definition id and predicate.
\<close>

record ConnAttr =
  InvitationJson :: string
  Label :: string

datatype CredAttrs = NoCredAttrs | CredAttrsList "(string \<times> string) list" | CredAttributesJson string

record CredDef =
  CredDefId :: string
  Attrs :: CredAttrs

datatype ProofReq = NoProofAttrs | ProofAttributesJson string | ProofAttrsList "(string \<times> string \<times> string) list"

datatype StartMsg =
    NoStartMsg
  | StartConnAttr ConnAttr
  | StartCredDef CredDef
  | StartProofReq ProofReq
  | StartBasicMessage string

record Protocol =
  TypeId :: Protocol_Type
  pRole :: Protocol_Role
  ConnectionId :: string
  StartMsg :: StartMsg

record Invitation =
  ID :: string
  ServiceEndpoint :: string
  RecipientKeys :: "string list"
  invLabel :: string

record Task =
  Nonce :: string
  taskTypeID :: PlType
  taskMessage :: string
  taskInfo :: string
  ConnectionInvitation :: "Invitation option"
  CredDefID :: "string option"
  CredentialAttrs :: "(string \<times> string) list option"
  ProofAttrs :: "(string \<times> string \<times> string) list option"

text \<open>The JSON decoder \<^verbatim>\<open>dto.FromJSONStr\<close> at the three types it is used at.\<close>

record Decoders =
  invitationFromJSON :: "string \<Rightarrow> Invitation"
  credAttrsFromJSON :: "string \<Rightarrow> (string \<times> string) list"
  proofAttrsFromJSON :: "string \<Rightarrow> (string \<times> string \<times> string) list"

definition GetConnAttr :: "Protocol \<Rightarrow> ConnAttr option" where
  "GetConnAttr p = (case StartMsg p of StartConnAttr c \<Rightarrow> Some c | _ \<Rightarrow> None)"

definition GetCredDef :: "Protocol \<Rightarrow> CredDef option" where
  "GetCredDef p = (case StartMsg p of StartCredDef c \<Rightarrow> Some c | _ \<Rightarrow> None)"

definition GetProofReq :: "Protocol \<Rightarrow> ProofReq" where
  "GetProofReq p = (case StartMsg p of StartProofReq r \<Rightarrow> r | _ \<Rightarrow> NoProofAttrs)"

definition GetBasicMessage :: "Protocol \<Rightarrow> string" where
  "GetBasicMessage p = (case StartMsg p of StartBasicMessage s \<Rightarrow> s | _ \<Rightarrow> '''')"

text \<open>
  \<^verbatim>\<open>taskFrom(protocol)\<close>, under \<^verbatim>\<open>defer err2.Return(&err)\<close>; \<open>uuid\<close> is the value
  \<^verbatim>\<open>utils.UUID()\<close> gives.
\<close>

definition taskFrom :: "Decoders \<Rightarrow> string \<Rightarrow> Protocol \<Rightarrow> (Task option \<times> error option) outcome" where
  "taskFrom dec uuid protocol =
     err2_Return None
       (case uniqueTypeID (pRole protocol) (TypeId protocol) of
          Panic p \<Rightarrow> Panic p
        | Return ty \<Rightarrow>
            (let task = \<lparr>Nonce = uuid, taskTypeID = ty, taskMessage = ConnectionId protocol,
                        taskInfo = '''', ConnectionInvitation = None, CredDefID = None,
                        CredentialAttrs = None, ProofAttrs = None\<rparr>
             in case TypeId protocol of
                  Protocol_NONE \<Rightarrow> Return (Some task, None)
                | Protocol_TRUST_PING \<Rightarrow> Return (Some task, None)
                | Protocol_BASIC_MESSAGE \<Rightarrow>
                    Return (Some (task\<lparr>taskInfo := GetBasicMessage protocol\<rparr>), None)
                | Protocol_CONNECT \<Rightarrow>
                    (case GetConnAttr protocol of
                       None \<Rightarrow> Panic (PanicErr (Err ''connection attrs cannot be nil''))
                     | Some c \<Rightarrow>
                         (let invitation = invitationFromJSON dec (InvitationJson c)
                          in Return (Some (task\<lparr>ConnectionInvitation := Some invitation,
                                                 taskInfo := Label c,
                                                 Nonce := ID invitation\<rparr>), None)))
                | Protocol_ISSUE \<Rightarrow>
                    if pRole protocol = Protocol_INITIATOR then
                      (case GetCredDef protocol of
                         None \<Rightarrow> Panic (PanicErr (Err ''cred def cannot be nil for issuing protocol''))
                       | Some credDef \<Rightarrow>
                           (let task1 = task\<lparr>CredDefID := Some (CredDefId credDef)\<rparr>
                            in case Attrs credDef of
                                 CredAttrsList attrs \<Rightarrow> Return (Some (task1\<lparr>CredentialAttrs := Some attrs\<rparr>), None)
                               | CredAttributesJson js \<Rightarrow>
                                   if js \<noteq> ''''
                                   then Return (Some (task1\<lparr>CredentialAttrs := Some (credAttrsFromJSON dec js)\<rparr>), None)
                                   else Return (Some task1, None)
                               | NoCredAttrs \<Rightarrow> Return (Some task1, None)))
                    else Return (Some task, None)
                | Protocol_PROOF \<Rightarrow>
                    if pRole protocol = Protocol_INITIATOR then
                      (case GetProofReq protocol of
                         ProofAttributesJson js \<Rightarrow>
                           if js \<noteq> ''''
                           then Return (Some (task\<lparr>ProofAttrs := Some (proofAttrsFromJSON dec js)\<rparr>), None)
                           else Return (Some task, None)
                       | ProofAttrsList attrs \<Rightarrow> Return (Some (task\<lparr>ProofAttrs := Some attrs\<rparr>), None)
                       | NoProofAttrs \<Rightarrow> Return (Some task, None))
                    else Return (Some task, None)))"

subsection \<open>Resume\<close>

text \<open>
  The call \<^verbatim>\<open>Resume\<close> forwards to \<^verbatim>\<open>prot.Resume(receiver, typeID, id, ack)\<close>, which is not
  among the sources: the model records its arguments.
\<close>

record ResumeCall =
  rcReceiver :: string
  rcTypeID :: PlType
  rcID :: string
  rcAck :: bool

text \<open>
  \<^verbatim>\<open>Resume(ctx, state)\<close>, under \<^verbatim>\<open>defer err2.Return(&err)\<close>. \<open>caRes\<close> is what \<^verbatim>\<open>ca(ctx)\<close>
  gives: an error, or the receiver. The result is what \<^verbatim>\<open>Resume\<close> returns and the
  call it forwarded, if it came that far.
\<close>

definition Resume ::
  "(error + string) \<Rightarrow> ProtocolState \<Rightarrow> (ProtocolID option \<times> error option) outcome \<times> ResumeCall option" where
  "Resume caRes state =
     (case caRes of
        Inl e \<Rightarrow> (err2_Return None (Panic (PanicErr e)), None)
      | Inr receiver \<Rightarrow>
          (case ProtocolID state of
             None \<Rightarrow> (err2_Return None (Panic (PanicErr nilDereference)), None)
           | Some pid \<Rightarrow>
               (case uniqueTypeID (pidRole pid) (pidTypeID pid) of
                  Panic p \<Rightarrow> (err2_Return None (Panic p), None)
                | Return ty \<Rightarrow>
                    (err2_Return None (Return (Some pid, None)),
                     Some \<lparr>rcReceiver = receiver, rcTypeID = ty, rcID = pidID pid,
                           rcAck = (State state = ProtocolState_ACK)\<rparr>))))"

subsection \<open>Run\<close>

text \<open>
  The server stream: \<^verbatim>\<open>server.Send(status)\<close> appends the status to what the client
  has received, or fails; \<open>sendErr\<close> says which, from what was sent so far and the
  status.
\<close>

type_synonym SendErr = "ProtocolState list \<Rightarrow> ProtocolState \<Rightarrow> error option"

definition Send :: "SendErr \<Rightarrow> ProtocolState list \<Rightarrow> ProtocolState \<Rightarrow> error option \<times> ProtocolState list" where
  "Send sendErr out status =
     (case sendErr out status of
        None \<Rightarrow> (None, out @ [status])
      | Some e \<Rightarrow> (Some e, out))"

text \<open>
  What the \<^verbatim>\<open>select\<close> of the loop receives, in the order it receives it: a substate
  from the status channel of the key, or one from its user action channel.
\<close>

datatype BusEvent = StatusEvent SubState | UserActionEvent SubState

datatype LoopExit = Break ProtocolState_State | SendFailed error | Blocked

definition taskProtocolID :: "string \<Rightarrow> ProtocolID" where
  "taskProtocolID taskID = \<lparr>pidTypeID = Protocol_NONE, pidRole = Protocol_UNKNOWN, pidID = taskID\<rparr>"

text \<open>
  The loop of \<^verbatim>\<open>Run\<close>. It leaves with a status code on a terminal substate of the
  status channel, fails when a send fails, and waits for ever when the channels
  give no more.
\<close>

fun runLoop :: "SendErr \<Rightarrow> string \<Rightarrow> BusEvent list \<Rightarrow> ProtocolState list \<Rightarrow> LoopExit \<times> ProtocolState list" where
  "runLoop sendErr taskID [] out = (Blocked, out)"
| "runLoop sendErr taskID (StatusEvent status # evs) out =
     (if status = ReadyACK \<or> status = ACK then (Break ProtocolState_OK, out)
      else if status = ReadyNACK \<or> status = NACK then (Break ProtocolState_NACK, out)
      else if status = Failure then (Break ProtocolState_ERR, out)
      else runLoop sendErr taskID evs out)"
| "runLoop sendErr taskID (UserActionEvent status # evs) out =
     (if status = Waiting then
        (case Send sendErr out
                \<lparr>ProtocolID = Some (taskProtocolID taskID), State = ProtocolState_WAIT_ACTION, Info = ''''\<rparr> of
           (Some e, out') \<Rightarrow> (SendFailed e, out')
         | (None, out') \<Rightarrow> runLoop sendErr taskID evs out')
      else runLoop sendErr taskID evs out)"

text \<open>
  The handler \<^verbatim>\<open>Run\<close> defers with \<^verbatim>\<open>err2.Handle\<close>: it sends a status ERR with the text
  of the error, and the error is returned.
\<close>

definition errorText_of :: "error \<Rightarrow> string" where
  "errorText_of e = (case e of Err msg \<Rightarrow> msg)"

definition Run_handler :: "SendErr \<Rightarrow> error \<Rightarrow> ProtocolState list \<Rightarrow> ProtocolState list" where
  "Run_handler sendErr e out =
     snd (Send sendErr out \<lparr>ProtocolID = None, State = ProtocolState_ERR, Info = errorText_of e\<rparr>)"

datatype RunResult = Returns "error option" | NeverReturns

text \<open>
  \<^verbatim>\<open>Run(protocol, server)\<close>. \<open>start\<close> is what the checks before the loop give (the
  token, the agent lookup, \<^verbatim>\<open>taskFrom\<close>): an error, or the id of the task that is
  started. The result is what \<^verbatim>\<open>Run\<close> returns and what it has streamed.
\<close>

definition Run :: "SendErr \<Rightarrow> (error + string) \<Rightarrow> BusEvent list \<Rightarrow> RunResult \<times> ProtocolState list" where
  "Run sendErr start evs =
     (case start of
        Inl e \<Rightarrow> (Returns (Some e), Run_handler sendErr e [])
      | Inr taskID \<Rightarrow>
          (case runLoop sendErr taskID evs [] of
             (Blocked, out) \<Rightarrow> (NeverReturns, out)
           | (SendFailed e, out) \<Rightarrow> (Returns (Some e), Run_handler sendErr e out)
           | (Break statusCode, out) \<Rightarrow>
               (case Send sendErr out
                       \<lparr>ProtocolID = Some (taskProtocolID taskID), State = statusCode, Info = ''''\<rparr> of
                  (Some e, out') \<Rightarrow> (Returns (Some e), Run_handler sendErr e out')
                | (None, out') \<Rightarrow> (Returns None, out'))))"

text \<open>
  The words in which the stream of \<open>Run\<close> is described: the substates of the status
  channel that end the stream, the final state each of them gives, the events the
  loop runs on after, and the WAIT\_ACTION states owed to the events received.
\<close>

definition endsRun :: "SubState \<Rightarrow> bool" where
  "endsRun ss = (ss = ReadyACK \<or> ss = ACK \<or> ss = ReadyNACK \<or> ss = NACK \<or> ss = Failure)"

definition finalState :: "SubState \<Rightarrow> ProtocolState_State" where
  "finalState ss =
     (if ss = ReadyACK \<or> ss = ACK then ProtocolState_OK
      else if ss = ReadyNACK \<or> ss = NACK then ProtocolState_NACK
      else ProtocolState_ERR)"

definition keepsRunning :: "BusEvent \<Rightarrow> bool" where
  "keepsRunning ev = (case ev of StatusEvent ss \<Rightarrow> \<not> endsRun ss | UserActionEvent ss \<Rightarrow> True)"

definition waitActions :: "string \<Rightarrow> BusEvent list \<Rightarrow> ProtocolState list" where
  "waitActions taskID evs =
     map (\<lambda>ev. \<lparr>ProtocolID = Some (taskProtocolID taskID), State = ProtocolState_WAIT_ACTION, Info = ''''\<rparr>)
       (filter (\<lambda>ev. ev = UserActionEvent Waiting) evs)"

section \<open>Concrete inputs\<close>

text \<open>
  The values at which the properties below are run: a message with the info
  \<open>hello\<close>, a cloud agent with no implementation id and no endpoint, the same agent
  with an endpoint, and an environment whose registry knows the permissive service
  agent only, whose endpoint answers with a connection error, and whose wallet
  has no pairwise yet.
\<close>

definition exampleMsg :: Msg where
  "exampleMsg = \<lparr>ready = False, info = ''hello'', subMsg = SubEmpty, errorText = '''', threadID = ''thread-1''\<rparr>"

definition examplePipe :: Pipe where
  "examplePipe = \<lparr>In = \<lparr>Did = ''ca-did'', VerKey = ''ca-vk''\<rparr>, Out = \<lparr>Did = ''wea-did'', VerKey = ''wea-vk''\<rparr>\<rparr>"

definition exampleCA :: Agent where
  "exampleCA = \<lparr>Type = {}, Root = \<lparr>Did = ''root-did'', VerKey = ''root-vk''\<rparr>, SAImplID = '''',
     EAEndp = None, Tr = \<lparr>PLPipe = examplePipe, MsgPipe = examplePipe\<rparr>,
     worker = None, ca = None, pws = None, pwNames = None\<rparr>"

definition exampleEndpointCA :: Agent where
  "exampleEndpointCA = exampleCA\<lparr>EAEndp := Some \<lparr>Endp = ''http://sa.example'', Key = ''''\<rparr>\<rparr>"

definition exampleEnv :: Env where
  "exampleEnv = \<lparr>didMeta = (\<lambda>d. (None, ''pairwise'')),
     addrFromJSON = (\<lambda>s. \<lparr>Endp = s, Key = ''''\<rparr>),
     DIDComCallEndp = (\<lambda>e p m. Inr \<lparr>plType = ConnectionError, plMessage = m\<lparr>errorText := ''refused''\<rparr>\<rparr>),
     saGet = (\<lambda>implID. if implID = PermissiveSA
                then (\<lambda>w p m. Return (permissiveHandler ''nonce-1'' w p m))
                else (\<lambda>w p m. Return (None, Some (Err ''no SA'')))),
     GRPCSA = ''grpc'',
     WalletKeyByDID = (\<lambda>d. Inr ''key''),
     walletInitializedBefore = True,
     LoadDID = (\<lambda>s. \<lparr>Did = s, VerKey = ''''\<rparr>),
     NewWalletMasterSecret = (\<lambda>d. Inr ''secret''),
     ProverCreateMasterSecret = (\<lambda>ms. (None, ms)),
     pairwiseList = Inr []\<rparr>"

text \<open>
  A PSM record of two entries, the last with a given substate and pending flag; a
  protocol state that resumes the issuing of thread \<open>thread-1\<close>; the events a run
  receives before the end of its protocol.
\<close>

definition examplePSM :: "SubState \<Rightarrow> bool \<Rightarrow> PSM" where
  "examplePSM ss pending =
     \<lparr>Key = \<lparr>keyDID = ''wea-did'', keyNonce = ''thread-1''\<rparr>, Role = Protocol_INITIATOR,
      ConnID = ''conn-1'',
      States = [\<lparr>Sub = Sending, Timestamp = 0, T = None, waitingFor = None, pendingFlag = False\<rparr>,
                \<lparr>Sub = ss, Timestamp = 1, T = None, waitingFor = None, pendingFlag = pending\<rparr>]\<rparr>"

definition exampleProtocolID :: ProtocolID where
  "exampleProtocolID = \<lparr>pidTypeID = Protocol_ISSUE, pidRole = Protocol_RESUME, pidID = ''thread-1''\<rparr>"

definition exampleState :: "ProtocolState_State \<Rightarrow> ProtocolState" where
  "exampleState st = \<lparr>ProtocolID = Some exampleProtocolID, State = st, Info = ''''\<rparr>"

definition exampleEvents :: "BusEvent list" where
  "exampleEvents = [StatusEvent Sending, UserActionEvent Waiting, StatusEvent Waiting]"

text \<open>
  A Connect message of an initiator, and a decoder that reads the invitation with
  the id \<open>invitation-7\<close> from it.
\<close>

definition exampleConnect :: Protocol where
  "exampleConnect =
     \<lparr>TypeId = Protocol_CONNECT, pRole = Protocol_INITIATOR, ConnectionId = '''',
      StartMsg = StartConnAttr \<lparr>InvitationJson = ''{invitation}'', Label = ''alice''\<rparr>\<rparr>"

definition exampleDecoders :: Decoders where
  "exampleDecoders =
     \<lparr>invitationFromJSON =
        (\<lambda>js. \<lparr>ID = ''invitation-7'', ServiceEndpoint = ''http://peer.example'',
                RecipientKeys = [''peer-vk''], invLabel = ''peer''\<rparr>),
      credAttrsFromJSON = (\<lambda>js. []),
      proofAttrsFromJSON = (\<lambda>js. [])\<rparr>"

text \<open>
  Two DIDs of a pairwise, and a worker agent with empty pairwise maps.
\<close>

definition exampleMe :: DID where
  "exampleMe = \<lparr>Did = ''my-did'', VerKey = ''my-vk''\<rparr>"

definition exampleYou :: DID where
  "exampleYou = \<lparr>Did = ''their-did'', VerKey = ''their-vk''\<rparr>"

definition exampleWorker :: Agent where
  "exampleWorker = \<lparr>Type = {Edge, Worker}, Root = \<lparr>Did = ''root-did'', VerKey = ''root-vk''\<rparr>,
     SAImplID = '''', EAEndp = None, Tr = \<lparr>PLPipe = examplePipe, MsgPipe = examplePipe\<rparr>,
     worker = None, ca = Some 0, pws = Some Map.empty, pwNames = Some Map.empty\<rparr>"

text \<open>
  An engine whose protocols permit no retransmission to a closed record and whose
  store and pipe work; a packet of thread \<open>thread-1\<close> for the worker \<open>wea-did\<close>; a
  world whose store holds the record of that thread with a given last substate.
\<close>

definition examplePSMEnv :: PSMEnv where
  "examplePSMEnv = \<lparr>permitsRetransmission = (\<lambda>m p. False), storeFails = (\<lambda>w k ss. False),
     pipeSend = (\<lambda>e. None), waitsForUser = (\<lambda>ts. False)\<rparr>"

definition examplePacket :: "HandlerName \<Rightarrow> Packet" where
  "examplePacket h = \<lparr>ThreadID = ''thread-1'', PayloadType = OtherPl ''present-proof'', ProtocolMsg = h,
     Message = exampleMsg, ReceiverWDID = ''wea-did''\<rparr>"

definition exampleWorld :: "SubState \<Rightarrow> World" where
  "exampleWorld ss =
     \<lparr>store = [\<lparr>keyDID = ''wea-did'', keyNonce = ''thread-1''\<rparr> \<mapsto> examplePSM ss False],
      bus = [], sent = [], clock = 2\<rparr>"

section \<open>Properties of the service agent callback\<close>

lemma permissiveHandler_question:
  "isQuestion plTy \<Longrightarrow>
     (\<exists>om. permissiveHandler nonce wdid plTy im = (Some om, None)
        \<and> ready om
        \<and> errorText om = errorText im \<and> threadID om = threadID im
        \<and> info om = (if plTy = SAPing then ''SA ping OK'' else info im)
        \<and> (plTy \<noteq> SAPresentProofAcceptPropose \<longrightarrow> subMsg om = subMsg im))"
  by (auto simp: isQuestion_def permissiveHandler_def)

lemma checkSAImpl_callType: "fst (checkSAImpl env a) = callTypeImplID"
  by (simp add: checkSAImpl_def)

lemma callableEA_callType:
  "callableEA env a = (Return ct, a') \<Longrightarrow> ct = callTypeImplID"
  by (auto simp: callableEA_def checkSAImpl_def Let_def split: if_splits prod.splits option.splits)

lemma callableEA_CA:
  "IsCA a \<Longrightarrow> callableEA env a = (Return callTypeImplID, snd (callableEA env a))"
  by (auto simp: callableEA_def checkSAImpl_def Let_def split: if_splits prod.splits option.splits)

lemma callableEA_not_CA:
  "\<not> IsCA a \<Longrightarrow> callableEA env a = (Panic (PanicVal ''not a CA''), a)"
  by (simp add: callableEA_def)

lemma Handle_rollback:
  "is_error out \<Longrightarrow> err2_Handle (CallEA_rollback im) None out = Return (Some (im\<lparr>ready := False\<rparr>), None)"
  by (auto simp: is_error_def err2_Handle_def CallEA_rollback_def
      split: outcome.splits panic.splits prod.splits option.splits)

lemma callEA_ConnectionError:
  "EAEndp a = Some ad \<Longrightarrow> DIDComCallEndp env (Endp ad) plTy im = Inr ipl \<Longrightarrow> plType ipl = ConnectionError
     \<Longrightarrow> callEA env a plTy im = Return (None, Some (Err (''call ea api: '' @ errorText (plMessage ipl))))"
  by (simp add: callEA_def err2_Return_def)

lemma callType_distinct: "callTypeImplID \<noteq> callTypeEndp" "callTypeImplID \<noteq> 0"
  by (simp_all add: callTypeImplID_def callTypeEndp_def)

lemma CallEA_CA:
  assumes "IsCA a"
  shows "CallEA env a plTy im =
     (err2_Handle (CallEA_rollback im) None
        (saGet env (SAImplID (snd (callableEA env a))) (WDID (snd (callableEA env a))) plTy im),
      snd (callableEA env a))"
proof -
  obtain a' where c: "callableEA env a = (Return callTypeImplID, a')"
    using callableEA_CA[OF assms] by blast
  show ?thesis
    by (simp add: CallEA_def CallEA_switch_def c callType_distinct)
qed

lemma callableEA_exampleCA:
  "callableEA exampleEnv exampleCA = (Return callTypeImplID, exampleCA\<lparr>SAImplID := ''grpc''\<rparr>)"
  by (simp add: callableEA_def checkSAImpl_def IsCA_def exampleCA_def exampleEnv_def PayloadPipe_def
      examplePipe_def)

text \<open>
  C1. Whatever the payload type and the inbound message, an error met while the
  service agent is called does not leave \<open>CallEA\<close>: when the branch that the call
  type selects ends in an error (one it returns or one it panics with), \<open>CallEA\<close>
  returns the inbound message with \<open>ready\<close> false and no error. So it is for the
  whole call on a cloud agent whose service agent implementation fails, and so it
  is on the endpoint branch when the endpoint replies with a payload of type
  ConnectionError, which \<open>callEA\<close> turns into an error.
\<close>

theorem C1_CallEA_error_is_NACK:
  "(is_error (CallEA_switch env ct a plTy im) \<longrightarrow>
      err2_Handle (CallEA_rollback im) None (CallEA_switch env ct a plTy im)
        = Return (Some (im\<lparr>ready := False\<rparr>), None))
   \<and> (IsCA a \<and> is_error (saGet env (SAImplID (snd (callableEA env a))) (WDID (snd (callableEA env a))) plTy im) \<longrightarrow>
        CallEA env a plTy im = (Return (Some (im\<lparr>ready := False\<rparr>), None), snd (callableEA env a)))
   \<and> (EAEndp a = Some ad \<and> DIDComCallEndp env (Endp ad) plTy im = Inr ipl \<and> plType ipl = ConnectionError \<longrightarrow>
        is_error (callEA env a plTy im)
        \<and> err2_Handle (CallEA_rollback im) None (CallEA_switch env callTypeEndp a plTy im)
            = Return (Some (im\<lparr>ready := False\<rparr>), None))"
proof (intro conjI impI)
  assume "is_error (CallEA_switch env ct a plTy im)"
  then show "err2_Handle (CallEA_rollback im) None (CallEA_switch env ct a plTy im)
        = Return (Some (im\<lparr>ready := False\<rparr>), None)"
    by (rule Handle_rollback)
next
  assume h: "IsCA a \<and> is_error (saGet env (SAImplID (snd (callableEA env a))) (WDID (snd (callableEA env a))) plTy im)"
  then show "CallEA env a plTy im = (Return (Some (im\<lparr>ready := False\<rparr>), None), snd (callableEA env a))"
    by (simp add: CallEA_CA Handle_rollback)
next
  assume h: "EAEndp a = Some ad \<and> DIDComCallEndp env (Endp ad) plTy im = Inr ipl \<and> plType ipl = ConnectionError"
  then have e: "callEA env a plTy im = Return (None, Some (Err (''call ea api: '' @ errorText (plMessage ipl))))"
    by (simp add: callEA_ConnectionError)
  then show "is_error (callEA env a plTy im)"
    by (simp add: is_error_def)
  then show "err2_Handle (CallEA_rollback im) None (CallEA_switch env callTypeEndp a plTy im)
            = Return (Some (im\<lparr>ready := False\<rparr>), None)"
    by (simp add: CallEA_switch_def Handle_rollback)
qed

text \<open>
  C1 at the concrete inputs: the default implementation is not registered, so the
  call of the cloud agent fails and \<open>CallEA\<close> answers not ready with no error; the
  endpoint of the second agent replies ConnectionError, with the same answer.
\<close>

theorem C1_CallEA_error_is_NACK_witness:
  "IsCA exampleCA
   \<and> is_error (saGet exampleEnv ''grpc'' ''wea-did'' SAPing exampleMsg)
   \<and> CallEA exampleEnv exampleCA SAPing exampleMsg =
       (Return (Some (exampleMsg\<lparr>ready := False\<rparr>), None), exampleCA\<lparr>SAImplID := ''grpc''\<rparr>)
   \<and> is_error (callEA exampleEnv exampleEndpointCA SAPing exampleMsg)
   \<and> err2_Handle (CallEA_rollback exampleMsg) None
        (CallEA_switch exampleEnv callTypeEndp exampleEndpointCA SAPing exampleMsg)
       = Return (Some (exampleMsg\<lparr>ready := False\<rparr>), None)"
  using C1_CallEA_error_is_NACK [of exampleEnv callTypeEndp exampleEndpointCA SAPing exampleMsg
          "\<lparr>Endp = ''http://sa.example'', Key = ''''\<rparr>"
          "\<lparr>plType = ConnectionError, plMessage = exampleMsg\<lparr>errorText := ''refused''\<rparr>\<rparr>"]
        C1_CallEA_error_is_NACK [of exampleEnv callTypeImplID exampleCA SAPing exampleMsg]
        callableEA_exampleCA
  by (simp add: IsCA_def exampleCA_def exampleEndpointCA_def exampleEnv_def is_error_def PermissiveSA_def
      WDID_def PayloadPipe_def examplePipe_def)

text \<open>
  C2. For every question (SAPing and the three accept questions) the permissive
  handler returns the inbound message as the outbound one with \<open>ready\<close> true and no
  error: the thread and the error text are those of the inbound message, the info
  is kept but for SAPing, where it is \<open>SA ping OK\<close>, and the sub message is kept but
  for the proof proposal, which gets the proof request. The handler is a function
  of its arguments alone, so it creates no PSM entry.
\<close>

theorem C2_permissive_sa_accepts_every_question:
  "isQuestion plTy \<Longrightarrow>
     (\<exists>om. permissiveHandler nonce wdid plTy im = (Some om, None)
        \<and> ready om
        \<and> errorText om = errorText im \<and> threadID om = threadID im
        \<and> info om = (if plTy = SAPing then ''SA ping OK'' else info im)
        \<and> (plTy \<noteq> SAPresentProofAcceptPropose \<longrightarrow> subMsg om = subMsg im))"
  by (rule permissiveHandler_question)

text \<open>C2 at the scenario of the specification: an SAPing with the info \<open>hello\<close>.\<close>

theorem C2_permissive_sa_ping_witness:
  "isQuestion SAPing \<and> info exampleMsg = ''hello'' \<and>
   (\<exists>om. permissiveHandler ''nonce-1'' ''wea-did'' SAPing exampleMsg = (Some om, None)
      \<and> ready om \<and> info om = ''SA ping OK'')"
  using C2_permissive_sa_accepts_every_question [of SAPing "''nonce-1''" "''wea-did''" exampleMsg]
  by (auto simp: isQuestion_def exampleMsg_def)

text \<open>
  C10. With an empty implementation id \<open>checkSAImpl\<close> sets the id to the default of
  the gRPC service agent and returns the call type of implementation ids; it
  returns that call type in every case. So \<open>callableEA\<close>, when it returns, never
  returns the zero call type, the \<open>switch\<close> of \<open>CallEA\<close> takes the branch of the
  implementation id, and \<open>CallEA\<close> on a cloud agent is the call of the registered
  implementation under the deferred handler: its default branch is never taken.
\<close>

theorem C10_default_branch_unreachable:
  "(SAImplID a = '''' \<longrightarrow> checkSAImpl env a = (callTypeImplID, a\<lparr>SAImplID := GRPCSA env\<rparr>))
   \<and> fst (checkSAImpl env a) = callTypeImplID
   \<and> (\<forall>ct a'. callableEA env a = (Return ct, a') \<longrightarrow>
         ct = callTypeImplID \<and> ct \<noteq> 0
         \<and> CallEA_switch env ct a' plTy im = saGet env (SAImplID a') (WDID a') plTy im)
   \<and> (IsCA a \<longrightarrow>
         CallEA env a plTy im =
           (err2_Handle (CallEA_rollback im) None
              (saGet env (SAImplID (snd (callableEA env a))) (WDID (snd (callableEA env a))) plTy im),
            snd (callableEA env a)))
   \<and> (IsCA a \<and> SAImplID a = '''' \<longrightarrow> SAImplID (snd (callableEA env a)) = GRPCSA env)"
proof (intro conjI allI impI)
  assume "SAImplID a = ''''"
  then show "checkSAImpl env a = (callTypeImplID, a\<lparr>SAImplID := GRPCSA env\<rparr>)"
    by (simp add: checkSAImpl_def)
next
  assume "IsCA a \<and> SAImplID a = ''''"
  then show "SAImplID (snd (callableEA env a)) = GRPCSA env"
    by (auto simp: callableEA_def checkSAImpl_def Let_def split: prod.splits option.splits)
next
  show "fst (checkSAImpl env a) = callTypeImplID"
    by (rule checkSAImpl_callType)
next
  fix ct a'
  assume c: "callableEA env a = (Return ct, a')"
  then show ct: "ct = callTypeImplID" by (rule callableEA_callType)
  then show "ct \<noteq> 0" by (simp add: callType_distinct)
  from ct
  show "CallEA_switch env ct a' plTy im = saGet env (SAImplID a') (WDID a') plTy im"
    by (simp add: CallEA_switch_def callType_distinct)
next
  assume "IsCA a"
  then show "CallEA env a plTy im =
           (err2_Handle (CallEA_rollback im) None
              (saGet env (SAImplID (snd (callableEA env a))) (WDID (snd (callableEA env a))) plTy im),
            snd (callableEA env a))"
    by (rule CallEA_CA)
qed

text \<open>
  C10 at the concrete cloud agent, whose implementation id is empty: the id
  becomes the default, the call type is that of implementation ids, and the answer
  of \<open>CallEA\<close> is the rollback of the failed call, without the info of the default
  branch.
\<close>

theorem C10_default_branch_unreachable_witness:
  "SAImplID exampleCA = '''' \<and> IsCA exampleCA
   \<and> checkSAImpl exampleEnv exampleCA = (callTypeImplID, exampleCA\<lparr>SAImplID := ''grpc''\<rparr>)
   \<and> callableEA exampleEnv exampleCA = (Return callTypeImplID, exampleCA\<lparr>SAImplID := ''grpc''\<rparr>)
   \<and> CallEA exampleEnv exampleCA SAPing exampleMsg =
       (Return (Some (exampleMsg\<lparr>ready := False\<rparr>), None), exampleCA\<lparr>SAImplID := ''grpc''\<rparr>)"
  using C10_default_branch_unreachable [of exampleCA exampleEnv SAPing exampleMsg] callableEA_exampleCA
  by (simp add: IsCA_def exampleCA_def exampleEnv_def err2_Handle_def CallEA_rollback_def PermissiveSA_def)

section \<open>Properties of the RPC server\<close>

lemma Pure_Archiving: "Pure ss AND Archiving = ss AND Archiving"
proof -
  have "(NOT (ACK OR NACK) AND Archiving) = Archiving"
    by (simp add: ACK_def NACK_def Archiving_def)
  then show ?thesis
    by (simp add: Pure_def and.assoc)
qed

lemma not_archived_Ready: "ss AND Archiving = 0 \<Longrightarrow> Pure ss \<noteq> Ready OR Archiving"
proof
  assume a: "ss AND Archiving = 0" and p: "Pure ss = Ready OR Archiving"
  have "Pure ss AND Archiving = Archiving"
    by (simp add: p Ready_def Archiving_def)
  with a Pure_Archiving[of ss] show False
    by (simp add: Archiving_def)
qed

lemma not_archived_Failure: "ss AND Archiving = 0 \<Longrightarrow> Pure ss \<noteq> Failure OR Archiving"
proof
  assume a: "ss AND Archiving = 0" and p: "Pure ss = Failure OR Archiving"
  have "Pure ss AND Archiving = Archiving"
    by (simp add: p Failure_def Archiving_def)
  with a Pure_Archiving[of ss] show False
    by (simp add: Archiving_def)
qed

lemma substates_distinct:
  "ReadyACK \<noteq> ReadyNACK" "ReadyACK \<noteq> NACK" "ReadyACK \<noteq> Failure" "ACK \<noteq> ReadyNACK" "ACK \<noteq> NACK"
  "ACK \<noteq> Failure" "ReadyNACK \<noteq> Failure" "NACK \<noteq> Failure" "ReadyACK \<noteq> ACK" "ReadyNACK \<noteq> NACK"
  by (simp_all add: ReadyACK_def ReadyNACK_def Ready_def ACK_def NACK_def Failure_def)

text \<open>
  C4, as the sentence states it, fails on a record that is being archived: the last
  substate is ReadyACK with the archiving bit, its projection is not Ready but
  Ready with the archiving bit, the code reports OK and the sentence RUNNING.
\<close>

theorem C4_archived_record_counterexample:
  "LastState (examplePSM (ReadyACK OR Archiving) False)
     = Some \<lparr>Sub = ReadyACK OR Archiving, Timestamp = 1, T = None, waitingFor = None, pendingFlag = False\<rparr>
   \<and> Pure (ReadyACK OR Archiving) \<noteq> Ready
   \<and> calcProtocolState (Some (examplePSM (ReadyACK OR Archiving) False)) = ProtocolState_OK
   \<and> calcProtocolState_stated (Some (examplePSM (ReadyACK OR Archiving) False)) = ProtocolState_RUNNING"
  by (simp add: calcProtocolState_def calcProtocolState_stated_def examplePSM_def PendingUserAction_def
      LastState_def Pure_def ReadyACK_def Ready_def ACK_def NACK_def Archiving_def Failure_def)

text \<open>
  C4, amended. The state of no record is RUNNING. The state of a record is
  WAIT\_ACTION when a user action is pending; else, from the projection \<open>Pure\<close> of the
  last substate: OK when it is Ready or Ready with the archiving bit and the ACK
  bit is set, NACK when it is one of these two and the ACK bit is not set, ERR when
  it is Failure or Failure with the archiving bit, and RUNNING in every other
  case, also when the record has no entry. On a record whose last substate has
  no archiving bit this is the state of the sentence as stated. \<open>Status\<close> hands this
  state, computed from the record the store gives, to the status provider.
\<close>

theorem C4_calcProtocolState:
  "calcProtocolState None = ProtocolState_RUNNING
   \<and> (PendingUserAction m \<longrightarrow> calcProtocolState (Some m) = ProtocolState_WAIT_ACTION)
   \<and> (\<not> PendingUserAction m \<and> LastState m = None \<longrightarrow> calcProtocolState (Some m) = ProtocolState_RUNNING)
   \<and> (\<not> PendingUserAction m \<and> LastState m = Some lst \<longrightarrow>
        calcProtocolState (Some m) =
          (if Pure (Sub lst) = Ready \<or> Pure (Sub lst) = Ready OR Archiving
           then (if Sub lst AND ACK \<noteq> 0 then ProtocolState_OK else ProtocolState_NACK)
           else if Pure (Sub lst) = Failure \<or> Pure (Sub lst) = Failure OR Archiving
           then ProtocolState_ERR
           else ProtocolState_RUNNING))
   \<and> ((\<forall>s. LastState m = Some s \<longrightarrow> Sub s AND Archiving = 0) \<longrightarrow>
        calcProtocolState (Some m) = calcProtocolState_stated (Some m))
   \<and> (getPSM \<lparr>keyDID = wdid, keyNonce = pidID pid\<rparr> = Inr mo \<longrightarrow>
        Status (Inr wdid) getPSM fillStatus pid =
          Return (Some (fillStatus \<lparr>keyDID = wdid, keyNonce = pidID pid\<rparr>
                    \<lparr>StatusState =
                       \<lparr>ProtocolID = Some (pid\<lparr>pidRole := (case mo of None \<Rightarrow> Protocol_UNKNOWN | Some m' \<Rightarrow> Role m')\<rparr>),
                        State = calcProtocolState mo, Info = ''''\<rparr>,
                     StatusDetail = ''''\<rparr>), None))"
  by (auto simp: calcProtocolState_def calcProtocolState_stated_def not_archived_Ready not_archived_Failure
      Status_def tryProtocolStatus_def err2_Return_def Let_def split: option.splits)

text \<open>
  C4 at concrete records: a pending user action gives WAIT\_ACTION, a last substate
  ReadyNACK gives NACK, Failure gives ERR, Waiting gives RUNNING, and \<open>Status\<close> on a
  store without the record reports RUNNING.
\<close>

theorem C4_calcProtocolState_witness:
  "PendingUserAction (examplePSM Waiting True)
   \<and> calcProtocolState (Some (examplePSM Waiting True)) = ProtocolState_WAIT_ACTION
   \<and> \<not> PendingUserAction (examplePSM ReadyNACK False)
   \<and> calcProtocolState (Some (examplePSM ReadyNACK False)) = ProtocolState_NACK
   \<and> calcProtocolState (Some (examplePSM Failure False)) = ProtocolState_ERR
   \<and> calcProtocolState (Some (examplePSM Waiting False)) = ProtocolState_RUNNING
   \<and> Status (Inr ''wea-did'') (\<lambda>k. Inr None) (\<lambda>k ps. ps) exampleProtocolID =
       Return (Some \<lparr>StatusState =
                       \<lparr>ProtocolID = Some (exampleProtocolID\<lparr>pidRole := Protocol_UNKNOWN\<rparr>),
                        State = ProtocolState_RUNNING, Info = ''''\<rparr>,
                     StatusDetail = ''''\<rparr>, None)"
  using C4_calcProtocolState [of "examplePSM Waiting True" _ "\<lambda>k. Inr None" "''wea-did''" exampleProtocolID
          None "\<lambda>k ps. ps"]
        C4_calcProtocolState [of "examplePSM ReadyNACK False"
          "\<lparr>Sub = ReadyNACK, Timestamp = 1, T = None, waitingFor = None, pendingFlag = False\<rparr>"]
        C4_calcProtocolState [of "examplePSM Failure False"
          "\<lparr>Sub = Failure, Timestamp = 1, T = None, waitingFor = None, pendingFlag = False\<rparr>"]
        C4_calcProtocolState [of "examplePSM Waiting False"
          "\<lparr>Sub = Waiting, Timestamp = 1, T = None, waitingFor = None, pendingFlag = False\<rparr>"]
  by (simp add: examplePSM_def PendingUserAction_def LastState_def Pure_def ReadyNACK_def Ready_def
      ACK_def NACK_def Archiving_def Failure_def Waiting_def)

lemma runLoop_running:
  assumes "\<forall>out st. sendErr out st = None" "\<forall>ev \<in> set pre. keepsRunning ev"
  shows "runLoop sendErr taskID (pre @ evs) out = runLoop sendErr taskID evs (out @ waitActions taskID pre)"
  using assms(2)
proof (induction pre arbitrary: out)
  case Nil
  then show ?case by (simp add: waitActions_def)
next
  case (Cons ev pre)
  then have IH: "\<And>out. runLoop sendErr taskID (pre @ evs) out
      = runLoop sendErr taskID evs (out @ waitActions taskID pre)"
    by simp
  show ?case
  proof (cases ev)
    case (StatusEvent ss)
    with Cons.prems have "\<not> endsRun ss" by (simp add: keepsRunning_def)
    moreover have "waitActions taskID (ev # pre) = waitActions taskID pre"
      using StatusEvent by (simp add: waitActions_def)
    ultimately show ?thesis
      using StatusEvent IH by (simp add: endsRun_def)
  next
    case (UserActionEvent ss)
    have "waitActions taskID (ev # pre) =
        (if ss = Waiting
         then [\<lparr>ProtocolID = Some (taskProtocolID taskID), State = ProtocolState_WAIT_ACTION, Info = ''''\<rparr>]
         else []) @ waitActions taskID pre"
      using UserActionEvent by (simp add: waitActions_def)
    moreover have "\<And>out st. Send sendErr out st = (None, out @ [st])"
      using assms(1) by (simp add: Send_def)
    ultimately show ?thesis
      using UserActionEvent IH by simp
  qed
qed

lemma runLoop_ends:
  "endsRun ss \<Longrightarrow> runLoop sendErr taskID (StatusEvent ss # rest) out = (Break (finalState ss), out)"
  by (auto simp: endsRun_def finalState_def)

text \<open>
  C5. Take a run whose checks before the loop passed and whose sends succeed, and
  events \<open>pre\<close> none of which is a status that ends the run. When the status channel
  then delivers a substate that ends the run, \<open>Run\<close> returns without error, and what
  it has streamed is one WAIT\_ACTION state for each Waiting event of the user
  action channel in \<open>pre\<close>, in their order, followed by exactly one final state: OK
  for ReadyACK and ACK, NACK for ReadyNACK and NACK, ERR for Failure. When
  the channels deliver \<open>pre\<close> and no more, \<open>Run\<close> has streamed the WAIT\_ACTION states
  and does not return: the loop ends on no other substate.
\<close>

theorem C5_Run_streams_until_terminal:
  assumes "\<forall>out st. sendErr out st = None" "\<forall>ev \<in> set pre. keepsRunning ev"
  shows "(endsRun ss \<longrightarrow>
           Run sendErr (Inr taskID) (pre @ StatusEvent ss # rest) =
             (Returns None,
              waitActions taskID pre @
                [\<lparr>ProtocolID = Some (taskProtocolID taskID), State = finalState ss, Info = ''''\<rparr>]))
         \<and> Run sendErr (Inr taskID) pre = (NeverReturns, waitActions taskID pre)
         \<and> (finalState ss = ProtocolState_OK) = (ss = ReadyACK \<or> ss = ACK)
         \<and> (finalState ss = ProtocolState_NACK) = (ss = ReadyNACK \<or> ss = NACK)
         \<and> (endsRun ss \<and> finalState ss = ProtocolState_ERR) = (ss = Failure)"
proof (intro conjI impI)
  assume e: "endsRun ss"
  have send: "\<And>out st. Send sendErr out st = (None, out @ [st])"
    using assms(1) by (simp add: Send_def)
  have "runLoop sendErr taskID (pre @ StatusEvent ss # rest) []
      = runLoop sendErr taskID (StatusEvent ss # rest) ([] @ waitActions taskID pre)"
    using assms by (rule runLoop_running)
  also have "\<dots> = (Break (finalState ss), waitActions taskID pre)"
    using e by (simp add: runLoop_ends del: runLoop.simps)
  finally show "Run sendErr (Inr taskID) (pre @ StatusEvent ss # rest) =
             (Returns None,
              waitActions taskID pre @
                [\<lparr>ProtocolID = Some (taskProtocolID taskID), State = finalState ss, Info = ''''\<rparr>])"
    by (simp add: Run_def send del: runLoop.simps)
next
  have "runLoop sendErr taskID (pre @ []) [] = runLoop sendErr taskID [] ([] @ waitActions taskID pre)"
    using assms by (rule runLoop_running)
  then show "Run sendErr (Inr taskID) pre = (NeverReturns, waitActions taskID pre)"
    by (simp add: Run_def)
next
  show "(finalState ss = ProtocolState_OK) = (ss = ReadyACK \<or> ss = ACK)"
    by (simp add: finalState_def)
  show "(finalState ss = ProtocolState_NACK) = (ss = ReadyNACK \<or> ss = NACK)"
    by (auto simp: finalState_def substates_distinct)
  show "(endsRun ss \<and> finalState ss = ProtocolState_ERR) = (ss = Failure)"
    by (auto simp: finalState_def endsRun_def substates_distinct)
qed

text \<open>
  C5 at the third scenario of the specification: the run sees Sending, a Waiting
  user action and Waiting, then ReadyNACK; it streams WAIT\_ACTION and the final
  state NACK, and ignores what comes after. Without the ReadyNACK it never returns.
\<close>

theorem C5_Run_streams_until_terminal_witness:
  "list_all keepsRunning exampleEvents
   \<and> endsRun ReadyNACK
   \<and> Run (\<lambda>out st. None) (Inr ''task-1'') (exampleEvents @ StatusEvent ReadyNACK # [StatusEvent Failure])
      = (Returns None,
         [\<lparr>ProtocolID = Some (taskProtocolID ''task-1''), State = ProtocolState_WAIT_ACTION, Info = ''''\<rparr>,
          \<lparr>ProtocolID = Some (taskProtocolID ''task-1''), State = ProtocolState_NACK, Info = ''''\<rparr>])
   \<and> Run (\<lambda>out st. None) (Inr ''task-1'') exampleEvents
      = (NeverReturns,
         [\<lparr>ProtocolID = Some (taskProtocolID ''task-1''), State = ProtocolState_WAIT_ACTION, Info = ''''\<rparr>])"
  using C5_Run_streams_until_terminal [of "\<lambda>out st. None" exampleEvents ReadyNACK "''task-1''"
          "[StatusEvent Failure]"]
  by (simp add: exampleEvents_def keepsRunning_def endsRun_def finalState_def waitActions_def
      ReadyACK_def ReadyNACK_def Ready_def ACK_def NACK_def Failure_def Sending_def Waiting_def)

lemma Resume_forwards:
  "Resume caRes state = (r, Some call) \<Longrightarrow> rcAck call = (State state = ProtocolState_ACK)"
  by (auto simp: Resume_def split: sum.splits option.splits outcome.splits)

lemma Resume_reaches:
  "typeID (pidRole pid) (pidTypeID pid) = Some ty \<Longrightarrow> ProtocolID state = Some pid \<Longrightarrow>
   Resume (Inr receiver) state =
     (Return (Some pid, None),
      Some \<lparr>rcReceiver = receiver, rcTypeID = ty, rcID = pidID pid,
            rcAck = (State state = ProtocolState_ACK)\<rparr>)"
  by (simp add: Resume_def uniqueTypeID_def err2_Return_def)

text \<open>
  C6. Whenever \<open>Resume\<close> forwards a call to the resumption of the protocol, the
  decision it forwards is ACK exactly when the state of the given protocol state
  is ACK: every other state, not only NACK, is forwarded as NACK. And it does
  forward the call, with the id of the protocol, when the caller has an agent and
  the role and type of the protocol id have a type id.
\<close>

theorem C6_Resume_forwards_ACK_iff_state_ACK:
  "(\<forall>r call. Resume caRes state = (r, Some call) \<longrightarrow> rcAck call = (State state = ProtocolState_ACK))
   \<and> (ProtocolID state = Some pid \<and> typeID (pidRole pid) (pidTypeID pid) = Some ty \<longrightarrow>
        Resume (Inr receiver) state =
          (Return (Some pid, None),
           Some \<lparr>rcReceiver = receiver, rcTypeID = ty, rcID = pidID pid,
                 rcAck = (State state = ProtocolState_ACK)\<rparr>))"
  using Resume_forwards Resume_reaches by blast

text \<open>C6 at two protocol states: ACK is forwarded as ACK, OK as NACK.\<close>

theorem C6_Resume_forwards_ACK_iff_state_ACK_witness:
  "Resume (Inr ''ca-did'') (exampleState ProtocolState_ACK) =
     (Return (Some exampleProtocolID, None),
      Some \<lparr>rcReceiver = ''ca-did'', rcTypeID = CAContinueIssueCredentialProtocol, rcID = ''thread-1'',
            rcAck = True\<rparr>)
   \<and> Resume (Inr ''ca-did'') (exampleState ProtocolState_OK) =
     (Return (Some exampleProtocolID, None),
      Some \<lparr>rcReceiver = ''ca-did'', rcTypeID = CAContinueIssueCredentialProtocol, rcID = ''thread-1'',
            rcAck = False\<rparr>)"
  using C6_Resume_forwards_ACK_iff_state_ACK [of "Inr ''ca-did''" "exampleState ProtocolState_ACK"
          exampleProtocolID CAContinueIssueCredentialProtocol "''ca-did''"]
        C6_Resume_forwards_ACK_iff_state_ACK [of "Inr ''ca-did''" "exampleState ProtocolState_OK"
          exampleProtocolID CAContinueIssueCredentialProtocol "''ca-did''"]
  by (simp add: exampleState_def exampleProtocolID_def typeID_def)

lemma taskFrom_connect:
  "TypeId protocol = Protocol_CONNECT \<Longrightarrow> taskFrom dec uuid protocol = Return (Some t, None) \<Longrightarrow>
     \<exists>c. StartMsg protocol = StartConnAttr c
        \<and> Nonce t = ID (invitationFromJSON dec (InvitationJson c))
        \<and> ConnectionInvitation t = Some (invitationFromJSON dec (InvitationJson c))"
  by (auto simp: taskFrom_def err2_Return_def GetConnAttr_def Let_def uniqueTypeID_def
      split: outcome.splits option.splits StartMsg.splits panic.splits)

lemma taskFrom_connect_returns:
  "TypeId protocol = Protocol_CONNECT \<Longrightarrow> pRole protocol = Protocol_INITIATOR \<Longrightarrow>
   StartMsg protocol = StartConnAttr c \<Longrightarrow>
     \<exists>t. taskFrom dec uuid protocol = Return (Some t, None)
        \<and> Nonce t = ID (invitationFromJSON dec (InvitationJson c))"
  by (simp add: taskFrom_def err2_Return_def GetConnAttr_def Let_def uniqueTypeID_def typeID_def)

lemma taskFrom_other:
  "TypeId protocol \<noteq> Protocol_CONNECT \<Longrightarrow> taskFrom dec uuid protocol = Return (Some t, None) \<Longrightarrow>
     Nonce t = uuid"
  by (auto simp: taskFrom_def err2_Return_def Let_def uniqueTypeID_def
      split: outcome.splits option.splits panic.splits Protocol_Type.splits if_splits CredAttrs.splits
        ProofReq.splits)

text \<open>
  C7. Every task that \<open>taskFrom\<close> builds for a Connect protocol has the id of the
  invitation as its nonce, whatever the UUID generated first, and carries that
  invitation; an initiator's Connect message with connection attributes does give
  such a task. For every other protocol the nonce is the UUID. The nonce is the
  thread id of the protocol instance, so the instance runs under the id the
  inviting peer chose.
\<close>

theorem C7_connect_nonce_is_invitation_id:
  "(TypeId protocol = Protocol_CONNECT \<and> taskFrom dec uuid protocol = Return (Some t, None) \<longrightarrow>
      (\<exists>c. StartMsg protocol = StartConnAttr c
          \<and> Nonce t = ID (invitationFromJSON dec (InvitationJson c))
          \<and> ConnectionInvitation t = Some (invitationFromJSON dec (InvitationJson c))))
   \<and> (TypeId protocol = Protocol_CONNECT \<and> pRole protocol = Protocol_INITIATOR
        \<and> StartMsg protocol = StartConnAttr attr \<longrightarrow>
      (\<exists>t'. taskFrom dec uuid protocol = Return (Some t', None)
          \<and> Nonce t' = ID (invitationFromJSON dec (InvitationJson attr))))
   \<and> (TypeId protocol \<noteq> Protocol_CONNECT \<and> taskFrom dec uuid protocol = Return (Some t, None) \<longrightarrow>
      Nonce t = uuid)"
  using taskFrom_connect taskFrom_connect_returns taskFrom_other by blast

text \<open>
  C7 at a concrete Connect message: the invitation decoded from the message has
  the id \<open>invitation-7\<close>, the UUID is \<open>uuid-1\<close>, and the nonce of the task is
  \<open>invitation-7\<close>.
\<close>

theorem C7_connect_nonce_is_invitation_id_witness:
  "TypeId exampleConnect = Protocol_CONNECT \<and> pRole exampleConnect = Protocol_INITIATOR
   \<and> StartMsg exampleConnect = StartConnAttr \<lparr>InvitationJson = ''{invitation}'', Label = ''alice''\<rparr>
   \<and> (\<exists>t. taskFrom exampleDecoders ''uuid-1'' exampleConnect = Return (Some t, None)
         \<and> Nonce t = ''invitation-7'')"
  using C7_connect_nonce_is_invitation_id [of exampleConnect exampleDecoders "''uuid-1''" _
          "\<lparr>InvitationJson = ''{invitation}'', Label = ''alice''\<rparr>"]
  by (simp add: exampleConnect_def exampleDecoders_def)

section \<open>Properties of the pairwise maps and of the worker EA\<close>

lemma AddToPWMap_returns:
  "pws a = Some m \<Longrightarrow> pwNames a = Some n \<Longrightarrow>
   AddToPWMap a me you name =
     (Return \<lparr>In = me, Out = you\<rparr>,
      a\<lparr>pws := Some (m(Did me \<mapsto> \<lparr>In = me, Out = you\<rparr>)),
        pwNames := Some (n(name \<mapsto> \<lparr>In = me, Out = you\<rparr>))\<rparr>)"
  by (simp add: AddToPWMap_def Let_def)

lemma AddToPWMap_success:
  "AddToPWMap a me you name = (Return p, a') \<Longrightarrow>
   \<exists>m n. pws a = Some m \<and> pwNames a = Some n \<and> p = \<lparr>In = me, Out = you\<rparr>
        \<and> a' = a\<lparr>pws := Some (m(Did me \<mapsto> p)), pwNames := Some (n(name \<mapsto> p))\<rparr>"
  by (auto simp: AddToPWMap_def Let_def split: option.splits)

lemma AddToPWMap_idem:
  assumes "AddToPWMap a me you name = (Return p, a')"
  shows "AddToPWMap a' me you name = (Return p, a')"
proof -
  obtain m n where mn: "pws a = Some m" "pwNames a = Some n" "p = \<lparr>In = me, Out = you\<rparr>"
      "a' = a\<lparr>pws := Some (m(Did me \<mapsto> p)), pwNames := Some (n(name \<mapsto> p))\<rparr>"
    using AddToPWMap_success[OF assms] by blast
  show ?thesis
    by (simp add: mn AddToPWMap_def Let_def)
qed

text \<open>
  C8, amended. A successful \<open>AddToPWMap\<close> called again with the same triple
  returns the same pipe and leaves the agent as it is. A call with a conflicting
  label for the same DID is not an error: on an agent whose maps are made every
  call returns the pipe, and after it the pipe is indexed under the new label as
  well as under the old one. After every successful call the pipe of the two
  DIDs is indexed under both keys: the DID index at \<open>Did me\<close> and the label index
  at \<open>name\<close> hold the same pipe, which \<open>SecPipe\<close> gives back; \<open>AddPipeToPWMap\<close>
  indexes its pipe in the same two ways.
\<close>

theorem C8_AddToPWMap_indexes_both_keys:
  "(AddToPWMap a me you name = (Return p, a') \<longrightarrow>
      AddToPWMap a' me you name = (Return p, a')
      \<and> p = \<lparr>In = me, Out = you\<rparr>
      \<and> (\<exists>m n. pws a' = Some m \<and> pwNames a' = Some n \<and> m (Did me) = Some p \<and> n name = Some p)
      \<and> SecPipe a' (Did me) = p)
   \<and> (pws a \<noteq> None \<and> pwNames a \<noteq> None \<longrightarrow> (\<exists>a'. AddToPWMap a me you name = (Return \<lparr>In = me, Out = you\<rparr>, a')))
   \<and> (AddToPWMap a me you name = (Return p, a') \<and> AddToPWMap a' me you name' = (Return p', a'') \<longrightarrow>
        p' = p \<and> (\<exists>m n. pws a'' = Some m \<and> pwNames a'' = Some n
                     \<and> m (Did me) = Some p \<and> n name = Some p \<and> n name' = Some p))
   \<and> (AddPipeToPWMap a pipe name = (Return (), a') \<longrightarrow>
        (\<exists>m n. pws a' = Some m \<and> pwNames a' = Some n
              \<and> m (Did (In pipe)) = Some pipe \<and> n name = Some pipe))"
proof (intro conjI impI)
  assume "AddPipeToPWMap a pipe name = (Return (), a')"
  then show "\<exists>m n. pws a' = Some m \<and> pwNames a' = Some n
              \<and> m (Did (In pipe)) = Some pipe \<and> n name = Some pipe"
    by (auto simp: AddPipeToPWMap_def Let_def split: option.splits)
next
  assume s: "AddToPWMap a me you name = (Return p, a')"
  then show "AddToPWMap a' me you name = (Return p, a')" by (rule AddToPWMap_idem)
  obtain m n where mn: "pws a = Some m" "pwNames a = Some n" "p = \<lparr>In = me, Out = you\<rparr>"
      "a' = a\<lparr>pws := Some (m(Did me \<mapsto> p)), pwNames := Some (n(name \<mapsto> p))\<rparr>"
    using AddToPWMap_success[OF s] by blast
  show "p = \<lparr>In = me, Out = you\<rparr>" by (rule mn(3))
  show "\<exists>m n. pws a' = Some m \<and> pwNames a' = Some n \<and> m (Did me) = Some p \<and> n name = Some p"
    by (simp add: mn(4))
  show "SecPipe a' (Did me) = p"
    by (simp add: mn(4) SecPipe_def)
next
  assume "pws a \<noteq> None \<and> pwNames a \<noteq> None"
  then show "\<exists>a'. AddToPWMap a me you name = (Return \<lparr>In = me, Out = you\<rparr>, a')"
    by (auto simp: AddToPWMap_returns)
next
  assume s: "AddToPWMap a me you name = (Return p, a') \<and> AddToPWMap a' me you name' = (Return p', a'')"
  obtain m n where mn: "pws a = Some m" "pwNames a = Some n" "p = \<lparr>In = me, Out = you\<rparr>"
      "a' = a\<lparr>pws := Some (m(Did me \<mapsto> p)), pwNames := Some (n(name \<mapsto> p))\<rparr>"
    using AddToPWMap_success s by blast
  obtain m' n' where mn': "pws a' = Some m'" "pwNames a' = Some n'" "p' = \<lparr>In = me, Out = you\<rparr>"
      "a'' = a'\<lparr>pws := Some (m'(Did me \<mapsto> p')), pwNames := Some (n'(name' \<mapsto> p'))\<rparr>"
    using AddToPWMap_success s by blast
  show "p' = p" by (simp add: mn(3) mn'(3))
  show "\<exists>m n. pws a'' = Some m \<and> pwNames a'' = Some n
                     \<and> m (Did me) = Some p \<and> n name = Some p \<and> n name' = Some p"
    using mn mn' by auto
qed

text \<open>
  C8, as stated, fails where it makes a conflicting label an error: the worker has
  the pairwise of \<open>my-did\<close> under the label \<open>alice\<close>, the second call gives the same
  DIDs the label \<open>bob\<close>, and that call returns the pipe with no error; the label
  index then holds the pipe under both labels.
\<close>

theorem C8_conflicting_label_counterexample:
  "(\<exists>a'. AddToPWMap exampleWorker exampleMe exampleYou ''alice'' = (Return \<lparr>In = exampleMe, Out = exampleYou\<rparr>, a')
      \<and> (\<exists>a''. AddToPWMap a' exampleMe exampleYou ''bob'' = (Return \<lparr>In = exampleMe, Out = exampleYou\<rparr>, a'')
           \<and> (\<exists>n. pwNames a'' = Some n \<and> n ''alice'' = Some \<lparr>In = exampleMe, Out = exampleYou\<rparr>
                  \<and> n ''bob'' = Some \<lparr>In = exampleMe, Out = exampleYou\<rparr>)))"
  by (simp add: AddToPWMap_def exampleWorker_def Let_def)

text \<open>
  C8 at the concrete worker: the first call succeeds, the same call again changes
  nothing, and the pipe is found by the DID.
\<close>

theorem C8_AddToPWMap_indexes_both_keys_witness:
  "(\<exists>a'. AddToPWMap exampleWorker exampleMe exampleYou ''alice'' = (Return \<lparr>In = exampleMe, Out = exampleYou\<rparr>, a')
      \<and> AddToPWMap a' exampleMe exampleYou ''alice'' = (Return \<lparr>In = exampleMe, Out = exampleYou\<rparr>, a')
      \<and> SecPipe a' ''my-did'' = \<lparr>In = exampleMe, Out = exampleYou\<rparr>)"
  using C8_AddToPWMap_indexes_both_keys [of exampleWorker exampleMe exampleYou "''alice''" "\<lparr>In = exampleMe, Out = exampleYou\<rparr>"]
  by (simp add: AddToPWMap_def exampleWorker_def Let_def exampleMe_def)

lemma loadPWs_frame:
  "loadPWs env ds a = (r, a') \<Longrightarrow> ca a' = ca a \<and> Type a' = Type a \<and> worker a' = worker a"
proof (induction ds arbitrary: a)
  case Nil
  then show ?case by simp
next
  case (Cons d ds)
  show ?case
  proof (cases "pws a")
    case None
    with Cons.prems show ?thesis by (simp add: Let_def)
  next
    case (Some m)
    show ?thesis
    proof (cases "pwNames a")
      case None
      with Some Cons.prems show ?thesis by (auto simp: Let_def)
    next
      case n: (Some n)
      from Cons.prems Some n
      have "loadPWs env ds
              (a\<lparr>pws := Some (m(MyDid d \<mapsto> \<lparr>In = LoadDID env (MyDid d), Out = LoadDID env (TheirDid d)\<rparr>)),
                 pwNames := Some (n(Metadata d \<mapsto> \<lparr>In = LoadDID env (MyDid d), Out = LoadDID env (TheirDid d)\<rparr>))\<rparr>)
            = (r, a')"
        by (simp add: Let_def)
      from Cons.IH[OF this] show ?thesis by simp
    qed
  qed
qed

lemma loadPWMap_frame:
  "loadPWMap env a = (r, a') \<Longrightarrow> ca a' = ca a \<and> Type a' = Type a \<and> worker a' = worker a"
  by (auto simp: loadPWMap_def split: sum.splits dest: loadPWs_frame)

lemma deref_Some: "deref h p = Some ag \<longleftrightarrow> p < length h \<and> h ! p = ag"
  by (auto simp: deref_def)

text \<open>What a call of workerAgent that has to create the worker leaves behind.\<close>

lemma workerAgent_creates:
  assumes d: "deref h a = Some ag" and n: "worker ag = None"
    and w: "workerAgent env h a rcvrDID suffix = (r, h')"
  shows "h' = h \<and> (\<exists>p. r = Panic p)
       \<or> (length h' = Suc (length h)
          \<and> deref h' a = Some (ag\<lparr>worker := Some (length h)\<rparr>)
          \<and> (\<exists>wa. deref h' (length h) = Some wa \<and> ca wa = Some a \<and> Type wa = {Edge, Worker})
          \<and> (r = Return (length h) \<or> (\<exists>p. r = Panic p)))"
proof -
  let ?cloudPipe = "\<lparr>In = LoadDID env rcvrDID, Out = In (PayloadPipe (Tr ag))\<rparr>"
  let ?wa = "\<lparr>Type = {Edge, Worker}, Root = Root ag, SAImplID = '''', EAEndp = None,
              Tr = \<lparr>PLPipe = ?cloudPipe, MsgPipe = ?cloudPipe\<rparr>,
              worker = None, ca = Some a, pws = Some Map.empty, pwNames = Some Map.empty\<rparr>"
  let ?h1 = "(h[a := ag\<lparr>worker := Some (length h)\<rparr>]) @ [?wa]"
  from d have al: "a < length h" and ha: "h ! a = ag" by (simp_all add: deref_Some)
  have h1a: "deref ?h1 a = Some (ag\<lparr>worker := Some (length h)\<rparr>)"
    using al by (simp add: deref_def nth_append)
  have h1w: "deref ?h1 (length h) = Some ?wa"
    by (simp add: deref_def nth_append)
  obtain lr lwa where l: "loadPWMap env ?wa = (lr, lwa)" by (cases "loadPWMap env ?wa")
  have lf: "ca lwa = Some a \<and> Type lwa = {Edge, Worker}"
    using loadPWMap_frame[OF l] by simp
  have h2a: "deref (?h1[length h := lwa]) a = Some (ag\<lparr>worker := Some (length h)\<rparr>)"
    using al by (simp add: deref_def nth_append nth_list_update)
  have h2w: "deref (?h1[length h := lwa]) (length h) = Some lwa"
    by (simp add: deref_def)
  from w d n l show ?thesis
    using h1a h1w h2a h2w lf
    by (auto simp: workerAgent_def Let_def split: if_splits sum.splits option.splits prod.splits outcome.splits)
qed

lemma WEA_existing:
  "deref h a = Some ag \<Longrightarrow> worker ag = Some w \<Longrightarrow> WEA env h a = (Return w, h)"
  by (simp add: WEA_def)

lemma WEA_new:
  "deref h a = Some ag \<Longrightarrow> worker ag = None \<Longrightarrow>
   WEA env h a = workerAgent env h a (Did (Out (PayloadPipe (Tr ag)))) ''_worker''"
  by (simp add: WEA_def)

lemma WEA_valid: "WEA env h a = (Return w, h') \<Longrightarrow> \<exists>ag. deref h a = Some ag"
  by (auto simp: WEA_def split: option.splits)

lemma WEA_records:
  assumes "WEA env h a = (Return w, h')"
  shows "\<exists>ag'. deref h' a = Some ag' \<and> worker ag' = Some w"
proof -
  obtain ag where d: "deref h a = Some ag" using WEA_valid[OF assms] by blast
  show ?thesis
  proof (cases "worker ag")
    case (Some w0)
    with d assms show ?thesis by (auto simp: WEA_existing)
  next
    case None
    with d assms have "workerAgent env h a (Did (Out (PayloadPipe (Tr ag)))) ''_worker'' = (Return w, h')"
      by (simp add: WEA_new)
    from workerAgent_creates[OF d None this] show ?thesis by auto
  qed
qed

lemma WEA_idem:
  assumes "WEA env h a = (Return w, h')"
  shows "WEA env' h' a = (Return w, h')"
  using WEA_records[OF assms] by (auto simp: WEA_existing)

lemma WEA_alloc:
  assumes "WEA env h a = (r, h')"
  shows "h' = h \<or> (length h' = Suc (length h) \<and> (\<exists>ag'. deref h' a = Some ag' \<and> worker ag' = Some (length h)))"
proof (cases "deref h a")
  case None
  with assms show ?thesis by (simp add: WEA_def)
next
  case (Some ag)
  show ?thesis
  proof (cases "worker ag")
    case w: (Some w0)
    with Some assms show ?thesis by (simp add: WEA_existing)
  next
    case None
    with Some assms have "workerAgent env h a (Did (Out (PayloadPipe (Tr ag)))) ''_worker'' = (r, h')"
      by (simp add: WEA_new)
    from workerAgent_creates[OF Some None this] show ?thesis by auto
  qed
qed

lemma WEA_back_reference:
  assumes d: "deref h a = Some ag" and n: "worker ag = None" and r: "WEA env h a = (Return w, h')"
  shows "w = length h \<and> length h' = Suc (length h)
       \<and> (\<exists>wa. deref h' w = Some wa \<and> ca wa = Some a \<and> IsWorker wa) \<and> MyCA h' w = Return a"
proof -
  from d n r have "workerAgent env h a (Did (Out (PayloadPipe (Tr ag)))) ''_worker'' = (Return w, h')"
    by (simp add: WEA_new)
  from workerAgent_creates[OF d n this]
  obtain wa where "w = length h" "length h' = Suc (length h)" "deref h' (length h) = Some wa"
      "ca wa = Some a" "Type wa = {Edge, Worker}"
    by auto
  then show ?thesis
    by (simp add: MyCA_def IsWorker_def)
qed

text \<open>
  C9. A call of \<open>WEA\<close> that returns a worker is idempotent: every later call, in
  whatever environment, returns the same worker and leaves the heap as it is; an
  agent that has a worker gets that worker and nothing is created. No call
  creates more than one agent, and a call that creates one records it as the worker
  of the CA, so that no later call creates another. The worker a call creates is
  new, holds the CA as its back reference and is a worker, so \<open>MyCA\<close> on it returns
  the CA. \<open>MyCA\<close> panics on an agent that is not a worker, and on a worker whose CA
  reference is nil.
\<close>

theorem C9_WEA_idempotent_back_reference:
  "(WEA env h a = (Return w, h') \<longrightarrow> WEA env' h' a = (Return w, h'))
   \<and> (deref h a = Some ag \<and> worker ag = Some w \<longrightarrow> WEA env h a = (Return w, h))
   \<and> (WEA env h a = (r, h') \<longrightarrow>
        h' = h \<or> (length h' = Suc (length h)
                  \<and> (\<exists>ag'. deref h' a = Some ag' \<and> worker ag' = Some (length h))))
   \<and> (deref h a = Some ag \<and> worker ag = None \<and> WEA env h a = (Return w, h') \<longrightarrow>
        w = length h \<and> length h' = Suc (length h)
        \<and> (\<exists>wa. deref h' w = Some wa \<and> ca wa = Some a \<and> IsWorker wa)
        \<and> MyCA h' w = Return a)
   \<and> (deref h x = Some ag \<and> \<not> IsWorker ag \<longrightarrow>
        MyCA h x = Panic (PanicVal ''not a worker agent! don't have CA''))
   \<and> (deref h x = Some ag \<and> IsWorker ag \<and> ca ag = None \<longrightarrow>
        MyCA h x = Panic (PanicVal ''CA is nil in Worker EA''))"
  using WEA_idem WEA_existing WEA_alloc WEA_back_reference
  by (auto simp: MyCA_def)

text \<open>
  C9 at the concrete cloud agent alone in the heap at address 0: the worker is
  created at address 1, the second call returns it again, \<open>MyCA\<close> of the worker is
  0; \<open>MyCA\<close> of the cloud agent panics, and so does \<open>MyCA\<close> of a worker with no CA.
\<close>

theorem C9_WEA_idempotent_back_reference_witness:
  "deref [exampleCA] 0 = Some exampleCA \<and> worker exampleCA = None
   \<and> (\<exists>h'. WEA exampleEnv [exampleCA] 0 = (Return 1, h')
         \<and> WEA exampleEnv h' 0 = (Return 1, h')
         \<and> MyCA h' 1 = Return 0
         \<and> length h' = 2)
   \<and> \<not> IsWorker exampleCA
   \<and> MyCA [exampleCA] 0 = Panic (PanicVal ''not a worker agent! don't have CA'')
   \<and> IsWorker (exampleCA\<lparr>Type := {Edge, Worker}\<rparr>)
   \<and> MyCA [exampleCA\<lparr>Type := {Edge, Worker}\<rparr>] 0 = Panic (PanicVal ''CA is nil in Worker EA'')"
  using C9_WEA_idempotent_back_reference [of exampleEnv "[exampleCA]" 0 1 _ exampleEnv exampleCA _ 0]
        C9_WEA_idempotent_back_reference [of exampleEnv "[exampleCA\<lparr>Type := {Edge, Worker}\<rparr>]" 0 1 _ exampleEnv
              "exampleCA\<lparr>Type := {Edge, Worker}\<rparr>" _ 0]
  by (simp add: WEA_def workerAgent_def deref_def exampleCA_def exampleEnv_def examplePipe_def
      PayloadPipe_def loadPWMap_def IsWorker_def Let_def MyCA_def)

section \<open>Properties of the terminating handlers\<close>

lemma persist_sent: "persist env k ss t wt p w = Some w' \<Longrightarrow> sent w' = sent w \<and> bus w' = bus w"
  by (auto simp: persist_def Let_def split: if_splits)

lemma LastState_append: "LastState (m\<lparr>States := States m @ [e]\<rparr>) = Some e"
  by (cases "States m") (simp_all add: LastState_def)

lemma persist_last:
  "persist env k ss t wt p w = Some w' \<Longrightarrow>
     \<exists>m. store w' k = Some m \<and> (\<exists>lst. LastState m = Some lst \<and> Sub lst = ss)"
  by (auto simp: persist_def Let_def LastState_append split: if_splits)

lemma persist_ok:
  "\<not> storeFails env w k ss \<Longrightarrow> \<exists>w'. persist env k ss t wt p w = Some w'"
  by (simp add: persist_def Let_def)

lemma ExecPSM_terminate:
  assumes t: "SendNext ts = Terminate"
    and io: "\<And>c im om. InOut ts c im om = ((ack, om), None)"
    and notClosed: "\<not> protocolClosed env ts w"
    and st: "\<forall>w k ss. \<not> storeFails env w k ss"
  shows "endsIn (packetKey (Packet ts)) (if ack then ReadyACK else ReadyNACK) w (ExecPSM env ts w)"
proof -
  let ?k = "packetKey (Packet ts)"
  let ?ss = "if ack then ReadyACK else ReadyNACK"
  obtain w1 where w1: "persist env ?k Sending (Task ts) None False w = Some w1"
    using persist_ok st by blast
  obtain w2 where w2: "persist env ?k ?ss (Task ts) None False w1 = Some w2"
    using persist_ok st by blast
  have e: "ExecPSM env ts w = (Inr (), emit ?k ?ss w2)"
    using t notClosed w1 w2 by (simp add: ExecPSM_def Let_def io packetKey_def)
  have s: "sent w2 = sent w \<and> bus w2 = bus w"
    using persist_sent[OF w1] persist_sent[OF w2] by simp
  obtain m lst where m: "store w2 ?k = Some m" "LastState m = Some lst" "Sub lst = ?ss"
    using persist_last[OF w2] by blast
  show ?thesis
    unfolding e endsIn_def using s m by (simp add: emit_def)
qed

lemma ExecPSM_terminate_sent:
  "SendNext ts = Terminate \<Longrightarrow> sent (snd (ExecPSM env ts w)) = sent w"
  by (auto simp: ExecPSM_def Let_def emit_def persist_def split: option.splits prod.splits if_splits)

lemma handleCredentialNACK_ends:
  assumes "\<not> protocolClosed env (credentialNACK packet) w" "\<forall>w k ss. \<not> storeFails env w k ss"
  shows "endsIn (packetKey packet) ReadyNACK w (handleCredentialNACK env packet w)"
proof -
  have "endsIn (packetKey (Packet (credentialNACK packet))) (if False then ReadyACK else ReadyNACK) w
          (ExecPSM env (credentialNACK packet) w)"
    by (rule ExecPSM_terminate[OF _ _ assms]) (simp_all add: credentialNACK_def err2_Annotate_def)
  then show ?thesis
    by (simp add: handleCredentialNACK_def credentialNACK_def)
qed

lemma handleProofACK_ends:
  assumes "\<not> protocolClosed env (proofACK packet task) w" "\<forall>w k ss. \<not> storeFails env w k ss"
  shows "endsIn (packetKey packet) ReadyACK w (handleProofACK env packet task w)"
proof -
  have "endsIn (packetKey (Packet (proofACK packet task))) (if True then ReadyACK else ReadyNACK) w
          (ExecPSM env (proofACK packet task) w)"
    by (rule ExecPSM_terminate[OF _ _ assms]) (simp_all add: proofACK_def err2_Annotate_def)
  then show ?thesis
    by (simp add: handleProofACK_def proofACK_def)
qed

lemma handleProofNACK_ends:
  assumes "\<not> protocolClosed env (proofNACK packet task) w" "\<forall>w k ss. \<not> storeFails env w k ss"
  shows "endsIn (packetKey packet) ReadyNACK w (handleProofNACK env packet task w)"
proof -
  have "endsIn (packetKey (Packet (proofNACK packet task))) (if False then ReadyACK else ReadyNACK) w
          (ExecPSM env (proofNACK packet task) w)"
    by (rule ExecPSM_terminate[OF _ _ assms]) (simp_all add: proofNACK_def err2_Annotate_def)
  then show ?thesis
    by (simp add: handleProofNACK_def proofNACK_def)
qed

lemma handleProtocol_ACK:
  "ProtocolMsg packet = HandlerPresentProofACK \<Longrightarrow>
   handleProtocol env others packet w =
     (case handleProofACK env packet
             (if ThreadID packet \<noteq> ''''
              then Some \<lparr>TaskID = ThreadID packet, TypeID = PayloadType packet\<rparr> else None) w of
        (r, w') \<Rightarrow> (Inr r, w'))"
  by (simp add: handleProtocol_def Let_def)

lemma handleProtocol_NACK:
  "ProtocolMsg packet = HandlerPresentProofNACK \<Longrightarrow>
   handleProtocol env others packet w =
     (case handleProofNACK env packet
             (if ThreadID packet \<noteq> ''''
              then Some \<lparr>TaskID = ThreadID packet, TypeID = PayloadType packet\<rparr> else None) w of
        (r, w') \<Rightarrow> (Inr r, w'))"
  by (simp add: handleProtocol_def Let_def)

text \<open>
  C3, amended. The three handlers hand the engine a transition whose \<open>SendNext\<close> is
  Terminate and whose \<open>InOut\<close> gives the ack bit true for the proof ACK and false
  for the two NACKs, with no error; \<open>handleProtocol\<close> takes the proof ACK and NACK
  messages to their handlers. When the store takes its writes and the engine
  does not refuse the message as ProtocolClosed, the instance of the packet ends
  in ReadyNACK for the credential NACK and the proof NACK and in ReadyACK for the
  proof ACK, with the event emitted. In every case no new envelope is sent.
\<close>

theorem C3_terminating_handlers:
  "SendNext (credentialNACK packet) = Terminate
   \<and> SendNext (proofACK packet task) = Terminate
   \<and> SendNext (proofNACK packet task) = Terminate
   \<and> InOut (credentialNACK packet) connID im om = ((False, om), None)
   \<and> InOut (proofACK packet task) connID im om = ((True, om), None)
   \<and> InOut (proofNACK packet task) connID im om = ((False, om), None)
   \<and> ((\<forall>w k ss. \<not> storeFails env w k ss) \<and> \<not> protocolClosed env (credentialNACK packet) w \<longrightarrow>
        endsIn (packetKey packet) ReadyNACK w (handleCredentialNACK env packet w))
   \<and> ((\<forall>w k ss. \<not> storeFails env w k ss) \<and> \<not> protocolClosed env (proofACK packet task) w \<longrightarrow>
        endsIn (packetKey packet) ReadyACK w (handleProofACK env packet task w))
   \<and> ((\<forall>w k ss. \<not> storeFails env w k ss) \<and> \<not> protocolClosed env (proofNACK packet task) w \<longrightarrow>
        endsIn (packetKey packet) ReadyNACK w (handleProofNACK env packet task w))
   \<and> sent (snd (handleCredentialNACK env packet w)) = sent w
   \<and> sent (snd (handleProofACK env packet task w)) = sent w
   \<and> sent (snd (handleProofNACK env packet task w)) = sent w
   \<and> (ProtocolMsg packet = HandlerPresentProofACK \<longrightarrow>
        handleProtocol env others packet w =
          (case handleProofACK env packet
                  (if ThreadID packet \<noteq> ''''
                   then Some \<lparr>TaskID = ThreadID packet, TypeID = PayloadType packet\<rparr> else None) w of
             (r, w') \<Rightarrow> (Inr r, w')))
   \<and> (ProtocolMsg packet = HandlerPresentProofNACK \<longrightarrow>
        handleProtocol env others packet w =
          (case handleProofNACK env packet
                  (if ThreadID packet \<noteq> ''''
                   then Some \<lparr>TaskID = ThreadID packet, TypeID = PayloadType packet\<rparr> else None) w of
             (r, w') \<Rightarrow> (Inr r, w')))"
proof (intro conjI impI)
  show "SendNext (credentialNACK packet) = Terminate" by (simp add: credentialNACK_def)
  show "SendNext (proofACK packet task) = Terminate" by (simp add: proofACK_def)
  show "SendNext (proofNACK packet task) = Terminate" by (simp add: proofNACK_def)
  show "InOut (credentialNACK packet) connID im om = ((False, om), None)"
    by (simp add: credentialNACK_def err2_Annotate_def)
  show "InOut (proofACK packet task) connID im om = ((True, om), None)"
    by (simp add: proofACK_def err2_Annotate_def)
  show "InOut (proofNACK packet task) connID im om = ((False, om), None)"
    by (simp add: proofNACK_def err2_Annotate_def)
  show "sent (snd (handleCredentialNACK env packet w)) = sent w"
    by (simp add: handleCredentialNACK_def ExecPSM_terminate_sent credentialNACK_def)
  show "sent (snd (handleProofACK env packet task w)) = sent w"
    by (simp add: handleProofACK_def ExecPSM_terminate_sent proofACK_def)
  show "sent (snd (handleProofNACK env packet task w)) = sent w"
    by (simp add: handleProofNACK_def ExecPSM_terminate_sent proofNACK_def)
next
  assume "(\<forall>w k ss. \<not> storeFails env w k ss) \<and> \<not> protocolClosed env (credentialNACK packet) w"
  then show "endsIn (packetKey packet) ReadyNACK w (handleCredentialNACK env packet w)"
    by (simp add: handleCredentialNACK_ends)
next
  assume "(\<forall>w k ss. \<not> storeFails env w k ss) \<and> \<not> protocolClosed env (proofACK packet task) w"
  then show "endsIn (packetKey packet) ReadyACK w (handleProofACK env packet task w)"
    by (simp add: handleProofACK_ends)
next
  assume "(\<forall>w k ss. \<not> storeFails env w k ss) \<and> \<not> protocolClosed env (proofNACK packet task) w"
  then show "endsIn (packetKey packet) ReadyNACK w (handleProofNACK env packet task w)"
    by (simp add: handleProofNACK_ends)
next
  assume "ProtocolMsg packet = HandlerPresentProofACK"
  then show "handleProtocol env others packet w =
          (case handleProofACK env packet
                  (if ThreadID packet \<noteq> ''''
                   then Some \<lparr>TaskID = ThreadID packet, TypeID = PayloadType packet\<rparr> else None) w of
             (r, w') \<Rightarrow> (Inr r, w'))"
    by (rule handleProtocol_ACK)
next
  assume "ProtocolMsg packet = HandlerPresentProofNACK"
  then show "handleProtocol env others packet w =
          (case handleProofNACK env packet
                  (if ThreadID packet \<noteq> ''''
                   then Some \<lparr>TaskID = ThreadID packet, TypeID = PayloadType packet\<rparr> else None) w of
             (r, w') \<Rightarrow> (Inr r, w'))"
    by (rule handleProtocol_NACK)
qed

lemma example_word_facts:
  "Pure ReadyACK = Ready" "Pure Waiting = Waiting" "Waiting \<noteq> Ready" "Waiting \<noteq> Failure"
  "Waiting \<noteq> Ready OR Archiving" "Waiting \<noteq> Failure OR Archiving" "ReadyACK \<noteq> ReadyNACK"
  by (simp_all add: Pure_def ReadyACK_def ReadyNACK_def Ready_def ACK_def NACK_def Failure_def
      Archiving_def Waiting_def)

text \<open>
  C3, as stated for every inbound message, fails on the engine of the
  specification when the record is closed: the instance has ended in ReadyACK, the
  protocol permits no retransmission, a proof NACK arrives, the transition fails
  with ProtocolClosed and the instance does not end in ReadyNACK. It fails too
  when the store takes no write: the transition on the waiting record fails with
  PersistenceFailure.
\<close>

theorem C3_closed_record_counterexample:
  "protocolClosed examplePSMEnv (proofNACK (examplePacket HandlerPresentProofNACK) None) (exampleWorld ReadyACK)
   \<and> handleProofNACK examplePSMEnv (examplePacket HandlerPresentProofNACK) None (exampleWorld ReadyACK)
       = (Inl ProtocolClosed, exampleWorld ReadyACK)
   \<and> \<not> endsIn (packetKey (examplePacket HandlerPresentProofNACK)) ReadyNACK (exampleWorld ReadyACK)
         (handleProofNACK examplePSMEnv (examplePacket HandlerPresentProofNACK) None (exampleWorld ReadyACK))
   \<and> handleProofNACK (examplePSMEnv\<lparr>storeFails := (\<lambda>w k ss. True)\<rparr>)
         (examplePacket HandlerPresentProofNACK) None (exampleWorld Waiting)
       = (Inl PersistenceFailure, exampleWorld Waiting)"
  by (simp add: handleProofNACK_def ExecPSM_def protocolClosed_def proofNACK_def examplePacket_def
      exampleWorld_def examplePSMEnv_def lookupOrCreate_def examplePSM_def LastState_def terminal_def
      example_word_facts endsIn_def persist_def Let_def)

text \<open>
  C3 at a record that waits: the proof NACK ends it in ReadyNACK, the proof ACK in
  ReadyACK, the credential NACK in ReadyNACK.
\<close>

theorem C3_terminating_handlers_witness:
  "(\<forall>w k ss. \<not> storeFails examplePSMEnv w k ss)
   \<and> \<not> protocolClosed examplePSMEnv (proofNACK (examplePacket HandlerPresentProofNACK) None) (exampleWorld Waiting)
   \<and> endsIn (packetKey (examplePacket HandlerPresentProofNACK)) ReadyNACK (exampleWorld Waiting)
       (handleProofNACK examplePSMEnv (examplePacket HandlerPresentProofNACK) None (exampleWorld Waiting))
   \<and> endsIn (packetKey (examplePacket HandlerPresentProofNACK)) ReadyACK (exampleWorld Waiting)
       (handleProofACK examplePSMEnv (examplePacket HandlerPresentProofNACK) None (exampleWorld Waiting))
   \<and> endsIn (packetKey (examplePacket HandlerPresentProofNACK)) ReadyNACK (exampleWorld Waiting)
       (handleCredentialNACK examplePSMEnv (examplePacket HandlerPresentProofNACK) (exampleWorld Waiting))
   \<and> ProtocolMsg (examplePacket HandlerPresentProofNACK) = HandlerPresentProofNACK"
  using C3_terminating_handlers [of "examplePacket HandlerPresentProofNACK" None _ _ _ examplePSMEnv
          "exampleWorld Waiting"]
  by (simp add: protocolClosed_def credentialNACK_def proofACK_def proofNACK_def examplePacket_def
      exampleWorld_def examplePSMEnv_def lookupOrCreate_def examplePSM_def LastState_def terminal_def
      example_word_facts Let_def cong: option.case_cong)

end
